theory Spec2Isabelle
  imports Main "HOL-Library.Word"
begin

section \<open>Data connections of an FTP server: active and passive sockets\<close>

text \<open>
  The development embeds \<^verbatim>\<open>socket.go\<close>: the two providers of the \<^verbatim>\<open>DataSocket\<close>
  interface, \<^verbatim>\<open>ftpActiveSocket\<close> and \<^verbatim>\<open>ftpPassiveSocket\<close>. The network, the clock, the
  logger and standard output are outside of the program; they appear as an environment
  of answers (\<open>env\<close>) and as a record of what the program did to them (\<open>world\<close>).
\<close>

subsection \<open>Values of the Go runtime and of its standard library\<close>

text \<open>An \<^verbatim>\<open>error\<close> value is identified by its message; \<^verbatim>\<open>nil\<close> is \<open>None\<close> of an option.\<close>

datatype go_error = GoError string

type_synonym byte = "8 word"

text \<open>\<^verbatim>\<open>*tls.Config\<close> is opaque here: a configuration is identified by a number.\<close>

datatype tls_config = TLSConfig nat

text \<open>
  \<^verbatim>\<open>net.TCPAddr\<close>: the IP in its textual form (empty for the unspecified address), the port
  and the IPv6 zone.
\<close>

record tcp_addr =
  addr_IP :: string
  addr_Port :: int
  addr_Zone :: string

text \<open>
  A \<^verbatim>\<open>net.Conn\<close> is either a TCP connection of the operating system (identified by a
  number) or the result of \<^verbatim>\<open>tls.Server(c, config)\<close>. A \<^verbatim>\<open>net.Listener\<close> is either the
  \<^verbatim>\<open>*net.TCPListener\<close> bound to a local address or the result of
  \<^verbatim>\<open>tls.NewListener(inner, config)\<close>.
\<close>

datatype conn = TCPConn nat | TLSServerConn conn tls_config

datatype listener = TCPListener tcp_addr | TLSListener listener tls_config

text \<open>The \<^verbatim>\<open>Logger\<close> interface is declared elsewhere; a logger is identified by a number.\<close>

datatype logger = Logger nat

text \<open>The second argument of \<^verbatim>\<open>logger.Print\<close> is an \<^verbatim>\<open>interface{}\<close>: a string or an error here.\<close>

datatype log_arg = LogString string | LogError go_error

text \<open>An unbuffered channel made by \<^verbatim>\<open>make(chan []byte)\<close>, or the nil channel.\<close>

datatype chan = NilChan | MakeChan

text \<open>
  What a call of a method does from the caller's side: it does not return (it is blocked),
  the goroutine panics, or it returns a value.
\<close>

datatype 'a outcome = Blocked | Panicked string | Returned 'a

subsection \<open>\<^verbatim>\<open>strconv.Itoa\<close>, \<^verbatim>\<open>strconv.Atoi\<close>, \<^verbatim>\<open>strings.Split\<close>, \<^verbatim>\<open>net.JoinHostPort\<close>\<close>

definition digit_char :: "nat \<Rightarrow> char" where
  "digit_char d = char_of (48 + d)"

fun digits_of :: "nat \<Rightarrow> string" where
  "digits_of n = (if n < 10 then [digit_char n] else digits_of (n div 10) @ [digit_char (n mod 10)])"

declare digits_of.simps [simp del]

text \<open>\<^verbatim>\<open>strconv.Itoa\<close>: the decimal digits, after a minus sign for a negative number.\<close>

definition Itoa :: "int \<Rightarrow> string" where
  "Itoa i = (if i < 0 then CHR ''-'' # digits_of (nat (- i)) else digits_of (nat i))"

definition is_digit :: "char \<Rightarrow> bool" where
  "is_digit c = (48 \<le> (of_char c :: nat) \<and> (of_char c :: nat) \<le> 57)"

definition digits_val :: "string \<Rightarrow> nat" where
  "digits_val ds = foldl (\<lambda>n ch. n * 10 + ((of_char ch :: nat) - 48)) 0 ds"

text \<open>
  \<^verbatim>\<open>strconv.Atoi\<close>: an optional sign, then at least one decimal digit and nothing else; the
  value has to fit the 64-bit \<^verbatim>\<open>int\<close>.
\<close>

definition Atoi :: "string \<Rightarrow> go_error + int" where
  "Atoi s =
     (let ds = (case s of [] \<Rightarrow> [] | c # cs \<Rightarrow> if c = CHR ''-'' \<or> c = CHR ''+'' then cs else s);
          neg = (case s of [] \<Rightarrow> False | c # cs \<Rightarrow> c = CHR ''-'')
      in if ds = [] \<or> \<not> list_all is_digit ds
         then Inl (GoError (''strconv.Atoi: parsing '' @ s @ '': invalid syntax''))
         else (let v = (if neg then - int (digits_val ds) else int (digits_val ds))
               in if v < - (2 ^ 63) \<or> 2 ^ 63 \<le> v
                  then Inl (GoError (''strconv.Atoi: parsing '' @ s @ '': value out of range''))
                  else Inr v))"

text \<open>
  \<^verbatim>\<open>strings.Split(s, sep)\<close> for a separator of one character: the pieces between the
  separators, so one piece more than there are separators.
\<close>

fun strings_Split :: "string \<Rightarrow> char \<Rightarrow> string list" where
  "strings_Split [] sep = [[]]"
| "strings_Split (c # cs) sep =
     (if c = sep then [] # strings_Split cs sep
      else (case strings_Split cs sep of
              [] \<Rightarrow> [[c]]
            | piece # pieces \<Rightarrow> (c # piece) # pieces))"

text \<open>\<^verbatim>\<open>net.JoinHostPort\<close>: a host with a colon in it is an IPv6 literal and gets brackets.\<close>

definition JoinHostPort :: "string \<Rightarrow> string \<Rightarrow> string" where
  "JoinHostPort h p =
     (if CHR '':'' \<in> set h then ''['' @ h @ '']:'' @ p else h @ '':'' @ p)"

text \<open>\<^verbatim>\<open>(*net.TCPAddr).String\<close>.\<close>

definition TCPAddr_String :: "tcp_addr \<Rightarrow> string" where
  "TCPAddr_String a =
     (if addr_Zone a \<noteq> []
      then JoinHostPort (addr_IP a @ ''%'' @ addr_Zone a) (Itoa (addr_Port a))
      else JoinHostPort (addr_IP a) (Itoa (addr_Port a)))"

text \<open>\<^verbatim>\<open>time.Second\<close>, a \<^verbatim>\<open>time.Duration\<close> in nanoseconds.\<close>

definition Second :: int where
  "Second = 1000000000"

subsection \<open>The environment and the record of effects\<close>

text \<open>Every call that leaves the program towards the \<^verbatim>\<open>net\<close> package or a connection.\<close>

datatype netcall =
    Call_ResolveTCPAddr string
  | Call_DialTimeout string int
  | Call_ListenTCP tcp_addr
  | Call_SetDeadline tcp_addr int
  | Call_Accept tcp_addr
  | Call_Read conn "byte list"
  | Call_Write conn "byte list"
  | Call_Close conn

text \<open>
  The environment answers each call; an answer may depend on all calls made before it
  (a closed connection answers differently, a port may be taken). A dial and an accept
  answer with the number of the new TCP connection, a listen with the local address the
  listener is bound to.
\<close>

record env =
  answer_resolve :: "netcall list \<Rightarrow> string \<Rightarrow> go_error + tcp_addr"
  answer_dial :: "netcall list \<Rightarrow> string \<Rightarrow> int \<Rightarrow> go_error + nat"
  answer_listen :: "netcall list \<Rightarrow> tcp_addr \<Rightarrow> go_error + tcp_addr"
  answer_accept :: "netcall list \<Rightarrow> tcp_addr \<Rightarrow> go_error + nat"
  answer_read :: "netcall list \<Rightarrow> conn \<Rightarrow> byte list \<Rightarrow> byte list \<times> int \<times> go_error option"
  answer_write :: "netcall list \<Rightarrow> conn \<Rightarrow> byte list \<Rightarrow> int \<times> go_error option"
  answer_close :: "netcall list \<Rightarrow> conn \<Rightarrow> go_error option"
  answer_now :: "netcall list \<Rightarrow> int"

text \<open>
  What the program has done so far: the calls in order, the calls of \<^verbatim>\<open>logger.Print\<close>
  (logger, session, message) and the lines written by \<^verbatim>\<open>fmt.Println\<close>.
\<close>

record world =
  calls :: "netcall list"
  logged :: "(logger \<times> string \<times> log_arg) list"
  stdout :: "string list"

definition called :: "netcall \<Rightarrow> world \<Rightarrow> world" where
  "called c w = w\<lparr>calls := calls w @ [c]\<rparr>"

definition logger_Print :: "logger \<Rightarrow> string \<Rightarrow> log_arg \<Rightarrow> world \<Rightarrow> world" where
  "logger_Print lg sessionID message w = w\<lparr>logged := logged w @ [(lg, sessionID, message)]\<rparr>"

text \<open>\<^verbatim>\<open>fmt.Println(a, b)\<close> writes the two operands with a space between them.\<close>

definition fmt_Println :: "string \<Rightarrow> string \<Rightarrow> world \<Rightarrow> world" where
  "fmt_Println a b w = w\<lparr>stdout := stdout w @ [a @ '' '' @ b]\<rparr>"

definition net_ResolveTCPAddr :: "env \<Rightarrow> string \<Rightarrow> world \<Rightarrow> (go_error + tcp_addr) \<times> world" where
  "net_ResolveTCPAddr env address w =
     (answer_resolve env (calls w) address, called (Call_ResolveTCPAddr address) w)"

definition net_DialTimeout :: "env \<Rightarrow> string \<Rightarrow> int \<Rightarrow> world \<Rightarrow> (go_error + conn) \<times> world" where
  "net_DialTimeout env address timeout w =
     (case answer_dial env (calls w) address timeout of
        Inl e \<Rightarrow> (Inl e, called (Call_DialTimeout address timeout) w)
      | Inr n \<Rightarrow> (Inr (TCPConn n), called (Call_DialTimeout address timeout) w))"

definition net_ListenTCP :: "env \<Rightarrow> tcp_addr \<Rightarrow> world \<Rightarrow> (go_error + listener) \<times> world" where
  "net_ListenTCP env laddr w =
     (case answer_listen env (calls w) laddr of
        Inl e \<Rightarrow> (Inl e, called (Call_ListenTCP laddr) w)
      | Inr bound \<Rightarrow> (Inr (TCPListener bound), called (Call_ListenTCP laddr) w))"

text \<open>\<^verbatim>\<open>listener.Addr()\<close>; the listener of \<^verbatim>\<open>crypto/tls\<close> embeds the inner one.\<close>

fun listener_Addr :: "listener \<Rightarrow> tcp_addr" where
  "listener_Addr (TCPListener a) = a"
| "listener_Addr (TLSListener inner cfg) = listener_Addr inner"

text \<open>
  \<^verbatim>\<open>listener.Accept()\<close>. The listener of \<^verbatim>\<open>crypto/tls\<close> accepts on the inner listener
  and returns \<^verbatim>\<open>tls.Server(c, config)\<close>.
\<close>

fun listener_Accept :: "env \<Rightarrow> listener \<Rightarrow> world \<Rightarrow> (go_error + conn) \<times> world" where
  "listener_Accept env (TCPListener a) w =
     (case answer_accept env (calls w) a of
        Inl e \<Rightarrow> (Inl e, called (Call_Accept a) w)
      | Inr n \<Rightarrow> (Inr (TCPConn n), called (Call_Accept a) w))"
| "listener_Accept env (TLSListener inner cfg) w =
     (case listener_Accept env inner w of
        (Inl e, w') \<Rightarrow> (Inl e, w')
      | (Inr c, w') \<Rightarrow> (Inr (TLSServerConn c cfg), w'))"

definition conn_Read :: "env \<Rightarrow> conn \<Rightarrow> byte list \<Rightarrow> world \<Rightarrow> (byte list \<times> int \<times> go_error option) \<times> world" where
  "conn_Read env c p w = (answer_read env (calls w) c p, called (Call_Read c p) w)"

definition conn_Write :: "env \<Rightarrow> conn \<Rightarrow> byte list \<Rightarrow> world \<Rightarrow> (int \<times> go_error option) \<times> world" where
  "conn_Write env c p w = (answer_write env (calls w) c p, called (Call_Write c p) w)"

definition conn_Close :: "env \<Rightarrow> conn \<Rightarrow> world \<Rightarrow> go_error option \<times> world" where
  "conn_Close env c w = (answer_close env (calls w) c, called (Call_Close c) w)"

definition nil_dereference :: string where
  "nil_dereference = ''runtime error: invalid memory address or nil pointer dereference''"

subsection \<open>\<^verbatim>\<open>ftpActiveSocket\<close>\<close>

record ftpActiveSocket =
  a_conn :: "conn option"
  a_host :: string
  a_port :: int
  a_logger :: logger

text \<open>
  \<^verbatim>\<open>newActiveSocket\<close> returns the pair \<^verbatim>\<open>(DataSocket, error)\<close>; each component may be
  \<^verbatim>\<open>nil\<close>.
\<close>

definition newActiveSocket ::
  "env \<Rightarrow> string \<Rightarrow> int \<Rightarrow> logger \<Rightarrow> string \<Rightarrow> world
     \<Rightarrow> (ftpActiveSocket option \<times> go_error option) \<times> world" where
  "newActiveSocket env remote port lg sessionID w =
     (let connectTo = JoinHostPort remote (Itoa port);
          w1 = logger_Print lg sessionID
                 (LogString (''Opening active data connection to '' @ connectTo)) w;
          (resolved, w2) = net_ResolveTCPAddr env connectTo w1
      in case resolved of
           Inl e \<Rightarrow> ((None, Some e), logger_Print lg sessionID (LogError e) w2)
         | Inr raddr \<Rightarrow>
             (let (dialed, w3) = net_DialTimeout env (TCPAddr_String raddr) (15 * Second) w2
              in case dialed of
                   Inl e \<Rightarrow> ((None, Some e), logger_Print lg sessionID (LogError e) w3)
                 | Inr tcpConn \<Rightarrow>
                     ((Some \<lparr>a_conn = Some tcpConn, a_host = remote, a_port = port,
                             a_logger = lg\<rparr>, None),
                      fmt_Println ''open'' (Itoa port) w3)))"

definition active_Host :: "ftpActiveSocket \<Rightarrow> string" where
  "active_Host socket = a_host socket"

definition active_Port :: "ftpActiveSocket \<Rightarrow> int" where
  "active_Port socket = a_port socket"

definition active_Read ::
  "env \<Rightarrow> ftpActiveSocket \<Rightarrow> byte list \<Rightarrow> world
     \<Rightarrow> (byte list \<times> int \<times> go_error option) outcome \<times> world" where
  "active_Read env socket p w =
     (case a_conn socket of
        None \<Rightarrow> (Panicked nil_dereference, w)
      | Some c \<Rightarrow> (let (r, w') = conn_Read env c p w in (Returned r, w')))"

definition active_Write ::
  "env \<Rightarrow> ftpActiveSocket \<Rightarrow> byte list \<Rightarrow> world
     \<Rightarrow> (int \<times> go_error option) outcome \<times> world" where
  "active_Write env socket p w =
     (case a_conn socket of
        None \<Rightarrow> (Panicked nil_dereference, w)
      | Some c \<Rightarrow> (let (r, w') = conn_Write env c p w in (Returned r, w')))"

definition active_Close ::
  "env \<Rightarrow> ftpActiveSocket \<Rightarrow> world \<Rightarrow> go_error option outcome \<times> world" where
  "active_Close env socket w =
     (let w1 = fmt_Println ''close'' (Itoa (a_port socket)) w
      in case a_conn socket of
           None \<Rightarrow> (Panicked nil_dereference, w1)
         | Some c \<Rightarrow> (let (r, w') = conn_Close env c w1 in (Returned r, w')))"

subsection \<open>\<^verbatim>\<open>ftpPassiveSocket\<close>\<close>

text \<open>The field \<open>p_wg\<close> is the counter of the \<^verbatim>\<open>sync.WaitGroup\<close>.\<close>

record ftpPassiveSocket =
  p_conn :: "conn option"
  p_port :: int
  p_host :: string
  p_ingress :: chan
  p_egress :: chan
  p_logger :: logger
  p_wg :: nat
  p_err :: "go_error option"
  p_tlsConfig :: "tls_config option"

text \<open>
  The goroutine started by \<^verbatim>\<open>GoListenAndServe\<close>, one constructor for each point where it
  can be between two of its statements:
  \<^item> \<open>T_SetDeadline l\<close>: before \<^verbatim>\<open>listener.(*net.TCPListener).SetDeadline(...)\<close>;
  \<^item> \<open>T_Accept l\<close>: before, or inside, \<^verbatim>\<open>listener.Accept()\<close>;
  \<^item> \<open>T_Accepted r\<close>: \<^verbatim>\<open>Accept\<close> has returned \<open>r\<close> and \<^verbatim>\<open>wg.Done\<close> is deferred;
  \<^item> \<open>T_StoreConn c\<close>: after \<^verbatim>\<open>socket.err = nil\<close>, before \<^verbatim>\<open>socket.conn = conn\<close>;
  \<^item> \<open>T_Return\<close>: the body is over and the deferred \<^verbatim>\<open>wg.Done()\<close> is about to run;
  \<^item> \<open>T_Exited\<close>; \<open>T_Panicked\<close>: the goroutine panicked, which ends the whole program.
\<close>

datatype accept_task =
    T_SetDeadline listener
  | T_Accept listener
  | T_Accepted "go_error + conn"
  | T_StoreConn conn
  | T_Return
  | T_Exited
  | T_Panicked string

text \<open>
  \<^verbatim>\<open>GoListenAndServe\<close> returns its error; the model returns the socket after the
  assignments to its fields and the goroutine it started, if it came that far.
  \<^verbatim>\<open>parts[len(parts)-1]\<close> is \<open>last parts\<close>: \<open>strings_Split\<close> never returns the empty
  list (lemma \<open>strings_Split_nonempty\<close>).
\<close>

definition GoListenAndServe ::
  "env \<Rightarrow> ftpPassiveSocket \<Rightarrow> string \<Rightarrow> world
     \<Rightarrow> (go_error option \<times> ftpPassiveSocket \<times> accept_task option) \<times> world" where
  "GoListenAndServe env socket sessionID w =
     (let (resolved, w1) =
            net_ResolveTCPAddr env (JoinHostPort [] (Itoa (p_port socket))) w
      in case resolved of
           Inl e \<Rightarrow> ((Some e, socket, None),
                     logger_Print (p_logger socket) sessionID (LogError e) w1)
         | Inr laddr \<Rightarrow>
             (let (listened, w2) = net_ListenTCP env laddr w1
              in case listened of
                   Inl e \<Rightarrow> ((Some e, socket, None),
                             logger_Print (p_logger socket) sessionID (LogError e) w2)
                 | Inr listener \<Rightarrow>
                     (let add = listener_Addr listener;
                          parts = strings_Split (TCPAddr_String add) CHR '':''
                      in case Atoi (last parts) of
                           Inl e \<Rightarrow> ((Some e, socket, None),
                                     logger_Print (p_logger socket) sessionID (LogError e) w2)
                         | Inr port \<Rightarrow>
                             (let socket1 = socket\<lparr>p_port := port\<rparr>;
                                  socket2 = socket1\<lparr>p_wg := p_wg socket1 + 1\<rparr>;
                                  listener' =
                                    (case p_tlsConfig socket2 of
                                       None \<Rightarrow> listener
                                     | Some cfg \<Rightarrow> TLSListener listener cfg)
                              in ((None, socket2, Some (T_SetDeadline listener')), w2)))))"

text \<open>
  \<^verbatim>\<open>newPassiveSocket\<close>. The parameter \<^verbatim>\<open>tlsConfing\<close> is not used in the body: the field
  \<^verbatim>\<open>tlsConfig\<close> keeps the zero value of \<^verbatim>\<open>new(ftpPassiveSocket)\<close>, as do \<^verbatim>\<open>conn\<close>, \<^verbatim>\<open>err\<close>
  and the wait group.
\<close>

definition newPassiveSocket ::
  "env \<Rightarrow> string \<Rightarrow> int \<Rightarrow> logger \<Rightarrow> string \<Rightarrow> tls_config option \<Rightarrow> world
     \<Rightarrow> ((ftpPassiveSocket option \<times> go_error option) \<times> accept_task option) \<times> world" where
  "newPassiveSocket env hostname port lg sessionID tlsConfing w =
     (let socket = \<lparr>p_conn = None, p_port = port, p_host = hostname, p_ingress = MakeChan,
                     p_egress = MakeChan, p_logger = lg, p_wg = 0, p_err = None,
                     p_tlsConfig = None\<rparr>
      in case GoListenAndServe env socket sessionID w of
           ((Some e, socket', task), w') \<Rightarrow> (((None, Some e), task), w')
         | ((None, socket', task), w') \<Rightarrow>
             (((Some socket', None), task), fmt_Println ''open'' (Itoa (p_port socket')) w'))"

definition passive_Host :: "ftpPassiveSocket \<Rightarrow> string" where
  "passive_Host socket = p_host socket"

definition passive_Port :: "ftpPassiveSocket \<Rightarrow> int" where
  "passive_Port socket = p_port socket"

text \<open>
  \<^verbatim>\<open>waitForOpenSocket\<close>: \<^verbatim>\<open>wg.Wait()\<close> does not return while the counter is above zero.
\<close>

definition waitForOpenSocket :: "ftpPassiveSocket \<Rightarrow> go_error option outcome" where
  "waitForOpenSocket socket =
     (if p_conn socket \<noteq> None then Returned None
      else if 0 < p_wg socket then Blocked
      else Returned (p_err socket))"

definition passive_Read ::
  "env \<Rightarrow> ftpPassiveSocket \<Rightarrow> byte list \<Rightarrow> world
     \<Rightarrow> (byte list \<times> int \<times> go_error option) outcome \<times> world" where
  "passive_Read env socket p w =
     (case waitForOpenSocket socket of
        Blocked \<Rightarrow> (Blocked, w)
      | Panicked m \<Rightarrow> (Panicked m, w)
      | Returned (Some e) \<Rightarrow> (Returned (p, 0, Some e), w)
      | Returned None \<Rightarrow>
          (case p_conn socket of
             None \<Rightarrow> (Panicked nil_dereference, w)
           | Some c \<Rightarrow> (let (r, w') = conn_Read env c p w in (Returned r, w'))))"

definition passive_Write ::
  "env \<Rightarrow> ftpPassiveSocket \<Rightarrow> byte list \<Rightarrow> world
     \<Rightarrow> (int \<times> go_error option) outcome \<times> world" where
  "passive_Write env socket p w =
     (case waitForOpenSocket socket of
        Blocked \<Rightarrow> (Blocked, w)
      | Panicked m \<Rightarrow> (Panicked m, w)
      | Returned (Some e) \<Rightarrow> (Returned (0, Some e), w)
      | Returned None \<Rightarrow>
          (case p_conn socket of
             None \<Rightarrow> (Panicked nil_dereference, w)
           | Some c \<Rightarrow> (let (r, w') = conn_Write env c p w in (Returned r, w'))))"

definition passive_Close ::
  "env \<Rightarrow> ftpPassiveSocket \<Rightarrow> world \<Rightarrow> go_error option \<times> world" where
  "passive_Close env socket w =
     (case p_conn socket of
        Some c \<Rightarrow> conn_Close env c (fmt_Println ''close'' (Itoa (p_port socket)) w)
      | None \<Rightarrow> (None, w))"

subsection \<open>The passive socket and its goroutine as one system\<close>

record passive_system =
  sys_socket :: ftpPassiveSocket
  sys_task :: accept_task
  sys_world :: world

text \<open>
  One statement of the goroutine's body. The type assertion
  \<^verbatim>\<open>listener.(*net.TCPListener)\<close> has the one-result form: it panics when the dynamic type
  is another one. \<^verbatim>\<open>wg.Done()\<close> panics on a counter that would go below zero.
\<close>

definition task_step :: "env \<Rightarrow> passive_system \<Rightarrow> passive_system option" where
  "task_step env s =
     (case sys_task s of
        T_SetDeadline l \<Rightarrow>
          (case l of
             TCPListener a \<Rightarrow>
               Some (s\<lparr>sys_task := T_Accept l,
                       sys_world := called (Call_SetDeadline a
                                      (answer_now env (calls (sys_world s)) + 15 * Second))
                                      (sys_world s)\<rparr>)
           | TLSListener inner cfg \<Rightarrow>
               Some (s\<lparr>sys_task := T_Panicked
                 ''interface conversion: net.Listener is *tls.listener, not *net.TCPListener''\<rparr>))
      | T_Accept l \<Rightarrow>
          (let (r, w') = listener_Accept env l (sys_world s)
           in Some (s\<lparr>sys_task := T_Accepted r, sys_world := w'\<rparr>))
      | T_Accepted r \<Rightarrow>
          (case r of
             Inl e \<Rightarrow> Some (s\<lparr>sys_socket := (sys_socket s)\<lparr>p_err := Some e\<rparr>,
                              sys_task := T_Return\<rparr>)
           | Inr c \<Rightarrow> Some (s\<lparr>sys_socket := (sys_socket s)\<lparr>p_err := None\<rparr>,
                              sys_task := T_StoreConn c\<rparr>))
      | T_StoreConn c \<Rightarrow>
          Some (s\<lparr>sys_socket := (sys_socket s)\<lparr>p_conn := Some c\<rparr>, sys_task := T_Return\<rparr>)
      | T_Return \<Rightarrow>
          (if p_wg (sys_socket s) = 0
           then Some (s\<lparr>sys_task := T_Panicked ''sync: negative WaitGroup counter''\<rparr>)
           else Some (s\<lparr>sys_socket := (sys_socket s)\<lparr>p_wg := p_wg (sys_socket s) - 1\<rparr>,
                        sys_task := T_Exited\<rparr>))
      | T_Exited \<Rightarrow> None
      | T_Panicked m \<Rightarrow> None)"

text \<open>The goroutine run for at most \<open>n\<close> statements.\<close>

fun run_task :: "env \<Rightarrow> nat \<Rightarrow> passive_system \<Rightarrow> passive_system" where
  "run_task env 0 s = s"
| "run_task env (Suc n) s =
     (case task_step env s of None \<Rightarrow> s | Some s' \<Rightarrow> run_task env n s')"

text \<open>A panic of the goroutine ends the program: nothing runs after it.\<close>

definition crashed :: "passive_system \<Rightarrow> bool" where
  "crashed s = (case sys_task s of T_Panicked m \<Rightarrow> True | _ \<Rightarrow> False)"

text \<open>
  One step of the system: a statement of the goroutine, or a call of \<^verbatim>\<open>Read\<close>, \<^verbatim>\<open>Write\<close>
  or \<^verbatim>\<open>Close\<close> by the owner of the \<^verbatim>\<open>DataSocket\<close> that returns. (\<^verbatim>\<open>Host\<close> and \<^verbatim>\<open>Port\<close>
  change nothing.) The three methods read the socket and do not assign to it; the reads
  of \<^verbatim>\<open>waitForOpenSocket\<close> and the one of \<^verbatim>\<open>socket.conn\<close> after it are taken in one step,
  the goroutine never assigning to a field again once one of them lets the call through.
\<close>

inductive step :: "env \<Rightarrow> passive_system \<Rightarrow> passive_system \<Rightarrow> bool" for env where
  step_task: "task_step env s = Some s' \<Longrightarrow> step env s s'"
| step_Read: "\<not> crashed s \<Longrightarrow>
     passive_Read env (sys_socket s) p (sys_world s) = (Returned r, w') \<Longrightarrow>
     step env s (s\<lparr>sys_world := w'\<rparr>)"
| step_Write: "\<not> crashed s \<Longrightarrow>
     passive_Write env (sys_socket s) p (sys_world s) = (Returned r, w') \<Longrightarrow>
     step env s (s\<lparr>sys_world := w'\<rparr>)"
| step_Close: "\<not> crashed s \<Longrightarrow>
     passive_Close env (sys_socket s) (sys_world s) = (r, w') \<Longrightarrow>
     step env s (s\<lparr>sys_world := w'\<rparr>)"

text \<open>The systems that exist: made by \<^verbatim>\<open>newPassiveSocket\<close>, then any number of steps.\<close>

inductive reachable :: "env \<Rightarrow> passive_system \<Rightarrow> bool" for env where
  reach_new: "newPassiveSocket env hostname port lg sessionID tlsConfing w =
       (((Some socket, None), Some task), w') \<Longrightarrow>
     reachable env \<lparr>sys_socket = socket, sys_task = task, sys_world = w'\<rparr>"
| reach_step: "reachable env s \<Longrightarrow> step env s s' \<Longrightarrow> reachable env s'"

text \<open>
  The readiness gate in the words of the specification, read off the three fields the
  way \<^verbatim>\<open>waitForOpenSocket\<close> reads them: a connection is there (Ready); none is there and
  the wait group is still held (Pending); none is there, the wait group is released and
  an error is stored (Failed). \<open>None\<close> is the remaining combination, which is no gate
  state: released with neither connection nor error.
\<close>

datatype gate = Pending | Ready conn | Failed go_error

definition gate_view :: "ftpPassiveSocket \<Rightarrow> gate option" where
  "gate_view socket =
     (case p_conn socket of
        Some c \<Rightarrow> Some (Ready c)
      | None \<Rightarrow>
          if 0 < p_wg socket then Some Pending
          else (case p_err socket of Some e \<Rightarrow> Some (Failed e) | None \<Rightarrow> None))"

text \<open>\<^verbatim>\<open>listener.Accept()\<close> has returned in the goroutine.\<close>

fun accept_returned :: "accept_task \<Rightarrow> bool" where
  "accept_returned (T_SetDeadline l) = False"
| "accept_returned (T_Accept l) = False"
| "accept_returned (T_Panicked m) = False"
| "accept_returned t = True"

text \<open>\<^verbatim>\<open>Close\<close> called \<open>n\<close> times in a row; the errors it returned, in order.\<close>

fun close_times :: "env \<Rightarrow> ftpPassiveSocket \<Rightarrow> nat \<Rightarrow> world \<Rightarrow> go_error option list \<times> world" where
  "close_times env socket 0 w = ([], w)"
| "close_times env socket (Suc n) w =
     (let (r, w1) = passive_Close env socket w;
          (rs, w2) = close_times env socket n w1
      in (r # rs, w2))"

text \<open>What holds of the fields at each point of the goroutine, in every system that exists.\<close>

definition unresolved :: "ftpPassiveSocket \<Rightarrow> bool" where
  "unresolved k = (p_conn k = None \<and> p_err k = None \<and> p_wg k = 1)"

definition task_inv :: "passive_system \<Rightarrow> bool" where
  "task_inv s =
     (p_tlsConfig (sys_socket s) = None \<and>
      (case sys_task s of
         T_SetDeadline l \<Rightarrow>
           (case l of
              TCPListener a \<Rightarrow> unresolved (sys_socket s)
            | TLSListener inner cfg \<Rightarrow> False)
       | T_Accept l \<Rightarrow> unresolved (sys_socket s)
       | T_Accepted r \<Rightarrow> unresolved (sys_socket s)
       | T_StoreConn c \<Rightarrow> unresolved (sys_socket s)
       | T_Return \<Rightarrow>
           p_wg (sys_socket s) = 1 \<and>
           (p_conn (sys_socket s) = None) \<noteq> (p_err (sys_socket s) = None)
       | T_Exited \<Rightarrow>
           p_wg (sys_socket s) = 0 \<and>
           (p_conn (sys_socket s) = None) \<noteq> (p_err (sys_socket s) = None)
       | T_Panicked m \<Rightarrow> False))"

subsection \<open>Two small environments\<close>

text \<open>
  In \<open>friendly_env\<close> every call succeeds: a wildcard address \<^verbatim>\<open>:port\<close> resolves to that port,
  any other address to port 21 of 10.0.0.9, a listener on port 0 is bound to port 40000,
  the peer that connects is connection 7, and a read delivers \<^verbatim>\<open>PING\<close>. In \<open>silent_env\<close>
  nobody connects before the deadline.
\<close>

definition friendly_env :: env where
  "friendly_env =
     \<lparr>answer_resolve = (\<lambda>h a. case a of
          [] \<Rightarrow> Inl (GoError ''missing port in address'')
        | c # cs \<Rightarrow>
            if c = CHR '':''
            then (case Atoi cs of
                    Inl e \<Rightarrow> Inl e
                  | Inr n \<Rightarrow> Inr \<lparr>addr_IP = [], addr_Port = n, addr_Zone = []\<rparr>)
            else Inr \<lparr>addr_IP = ''10.0.0.9'', addr_Port = 21, addr_Zone = []\<rparr>),
      answer_dial = (\<lambda>h a t. Inr 3),
      answer_listen = (\<lambda>h a.
          if addr_Port a < 0 \<or> 65535 < addr_Port a
          then Inl (GoError ''listen tcp: address out of range'')
          else Inr (a\<lparr>addr_IP := ''::'',
                      addr_Port := (if addr_Port a = 0 then 40000 else addr_Port a)\<rparr>)),
      answer_accept = (\<lambda>h a. Inr 7),
      answer_read = (\<lambda>h c p. ([80, 73, 78, 71], 4, None)),
      answer_write = (\<lambda>h c p. (int (length p), None)),
      answer_close = (\<lambda>h c. None),
      answer_now = (\<lambda>h. 0)\<rparr>"

definition silent_env :: env where
  "silent_env = friendly_env\<lparr>answer_accept := (\<lambda>h a. Inl (GoError ''i/o timeout''))\<rparr>"

definition world0 :: world where
  "world0 = \<lparr>calls = [], logged = [], stdout = []\<rparr>"

text \<open>
  The system that \<^verbatim>\<open>newPassiveSocket("127.0.0.1", 0, logger, "s1", config)\<close> makes in
  both environments, for any \<^verbatim>\<open>config\<close>.
\<close>

definition listening_system :: passive_system where
  "listening_system =
     \<lparr>sys_socket =
        \<lparr>p_conn = None, p_port = 40000, p_host = ''127.0.0.1'', p_ingress = MakeChan,
         p_egress = MakeChan, p_logger = Logger 1, p_wg = 1, p_err = None,
         p_tlsConfig = None\<rparr>,
      sys_task =
        T_SetDeadline (TCPListener \<lparr>addr_IP = ''::'', addr_Port = 40000, addr_Zone = []\<rparr>),
      sys_world =
        \<lparr>calls = [Call_ResolveTCPAddr '':0'',
                  Call_ListenTCP \<lparr>addr_IP = [], addr_Port = 0, addr_Zone = []\<rparr>],
         logged = [], stdout = [''open 40000'']\<rparr>\<rparr>"

section \<open>Facts about the library functions\<close>

lemma strings_Split_nonempty: "strings_Split s sep \<noteq> []"
  by (induction s) (auto split: list.splits)

lemma strings_Split_append:
  "strings_Split (h @ sep # t) sep = strings_Split h sep @ strings_Split t sep"
proof (induction h)
  case Nil
  show ?case by simp
next
  case (Cons c h)
  obtain x xs where "strings_Split h sep = x # xs"
    using strings_Split_nonempty [of h sep] by (cases "strings_Split h sep") auto
  with Cons show ?case by simp
qed

lemma strings_Split_no_sep: "sep \<notin> set q \<Longrightarrow> strings_Split q sep = [q]"
  by (induction q) auto

lemma last_strings_Split: "sep \<notin> set p \<Longrightarrow> last (strings_Split (h @ sep # p) sep) = p"
  by (simp add: strings_Split_append strings_Split_no_sep)

lemma digit_char_is_digit: "d < 10 \<Longrightarrow> is_digit (digit_char d)"
  by (simp add: is_digit_def digit_char_def)

lemma digit_char_val: "d < 10 \<Longrightarrow> (of_char (digit_char d) :: nat) - 48 = d"
  by (simp add: digit_char_def)

lemma digits_of_all_digits: "list_all is_digit (digits_of n)"
proof (induction n rule: digits_of.induct)
  case (1 n)
  then show ?case
    by (subst digits_of.simps) (auto simp: digit_char_is_digit)
qed

lemma digits_of_nonempty: "digits_of n \<noteq> []"
  by (subst digits_of.simps) simp

lemma digits_val_digits_of: "digits_val (digits_of n) = n"
proof (induction n rule: digits_of.induct)
  case (1 n)
  show ?case
  proof (cases "n < 10")
    case True
    then show ?thesis
      by (subst digits_of.simps) (simp add: digits_val_def digit_char_val)
  next
    case False
    with 1 have ih: "digits_val (digits_of (n div 10)) = n div 10" by simp
    have "digits_val (digits_of n) = digits_val (digits_of (n div 10)) * 10 + n mod 10"
      using False by (subst digits_of.simps) (simp add: digits_val_def digit_char_val)
    with ih show ?thesis by simp
  qed
qed

lemma is_digit_not_sign: "is_digit c \<Longrightarrow> c \<noteq> CHR ''-'' \<and> c \<noteq> CHR ''+'' \<and> c \<noteq> CHR '':''"
  by (auto simp: is_digit_def)

lemma Atoi_Itoa: "0 \<le> i \<Longrightarrow> i < 2 ^ 63 \<Longrightarrow> Atoi (Itoa i) = Inr i"
proof -
  assume i: "0 \<le> i" "i < 2 ^ 63"
  obtain c cs where d: "digits_of (nat i) = c # cs"
    using digits_of_nonempty [of "nat i"] by (cases "digits_of (nat i)") auto
  have all: "list_all is_digit (c # cs)"
    using digits_of_all_digits [of "nat i"] d by simp
  then have c: "c \<noteq> CHR ''-''" "c \<noteq> CHR ''+''"
    using is_digit_not_sign [of c] by auto
  have v: "digits_val (c # cs) = nat i"
    using digits_val_digits_of [of "nat i"] d by simp
  show ?thesis
    using i c all v d by (simp add: Atoi_def Itoa_def Let_def)
qed

lemma colon_notin_Itoa: "CHR '':'' \<notin> set (Itoa i)"
proof -
  have "CHR '':'' \<notin> set (digits_of n)" for n
    using digits_of_all_digits [of n] is_digit_not_sign by (auto simp: list_all_iff)
  then show ?thesis by (simp add: Itoa_def)
qed

lemma last_Split_JoinHostPort: "last (strings_Split (JoinHostPort h (Itoa i)) CHR '':'') = Itoa i"
proof -
  have "JoinHostPort h (Itoa i) = (if CHR '':'' \<in> set h then ''['' @ h @ '']'' else h) @ CHR '':'' # Itoa i"
    by (simp add: JoinHostPort_def)
  then show ?thesis
    using last_strings_Split [OF colon_notin_Itoa] by simp
qed

lemma last_Split_TCPAddr_String:
  "last (strings_Split (TCPAddr_String a) CHR '':'') = Itoa (addr_Port a)"
  by (simp add: TCPAddr_String_def last_Split_JoinHostPort)

section \<open>What the constructors and \<^verbatim>\<open>Close\<close> do to the world\<close>

lemma GoListenAndServe_success:
  assumes "GoListenAndServe env socket sessionID w = ((None, socket', t), w')"
  shows "\<exists>laddr b port'.
           answer_resolve env (calls w) (JoinHostPort [] (Itoa (p_port socket))) = Inr laddr \<and>
           answer_listen env (calls w @ [Call_ResolveTCPAddr (JoinHostPort [] (Itoa (p_port socket)))])
             laddr = Inr b \<and>
           Atoi (Itoa (addr_Port b)) = Inr port' \<and>
           socket' = socket\<lparr>p_port := port', p_wg := p_wg socket + 1\<rparr> \<and>
           t = Some (T_SetDeadline (case p_tlsConfig socket of
                                      None \<Rightarrow> TCPListener b
                                    | Some cfg \<Rightarrow> TLSListener (TCPListener b) cfg)) \<and>
           w' = w\<lparr>calls := calls w @ [Call_ResolveTCPAddr (JoinHostPort [] (Itoa (p_port socket))),
                                        Call_ListenTCP laddr]\<rparr>"
  using assms
  by (auto simp: GoListenAndServe_def net_ResolveTCPAddr_def net_ListenTCP_def called_def Let_def
        last_Split_TCPAddr_String split: sum.splits)

lemma newPassiveSocket_success:
  assumes "newPassiveSocket env hostname port lg sessionID tlsConfing w = (((Some socket, eo), t), w')"
  shows "\<exists>laddr b port'.
           answer_resolve env (calls w) (JoinHostPort [] (Itoa port)) = Inr laddr \<and>
           answer_listen env (calls w @ [Call_ResolveTCPAddr (JoinHostPort [] (Itoa port))])
             laddr = Inr b \<and>
           Atoi (Itoa (addr_Port b)) = Inr port' \<and>
           socket = \<lparr>p_conn = None, p_port = port', p_host = hostname, p_ingress = MakeChan,
                     p_egress = MakeChan, p_logger = lg, p_wg = 1, p_err = None,
                     p_tlsConfig = None\<rparr> \<and>
           eo = None \<and>
           t = Some (T_SetDeadline (TCPListener b)) \<and>
           w' = w\<lparr>calls := calls w @ [Call_ResolveTCPAddr (JoinHostPort [] (Itoa port)),
                                        Call_ListenTCP laddr],
                    stdout := stdout w @ [''open '' @ Itoa port']\<rparr>"
proof -
  let ?k = "\<lparr>p_conn = None, p_port = port, p_host = hostname, p_ingress = MakeChan,
             p_egress = MakeChan, p_logger = lg, p_wg = 0, p_err = None, p_tlsConfig = None\<rparr>"
  obtain eo' k' t' w1 where g: "GoListenAndServe env ?k sessionID w = ((eo', k', t'), w1)"
    by (metis prod_cases3 surj_pair)
  with assms have e: "eo' = None" "k' = socket" "t' = t" "eo = None"
    and w': "w' = fmt_Println ''open'' (Itoa (p_port k')) w1"
    by (auto simp: newPassiveSocket_def split: option.splits)
  from GoListenAndServe_success [OF g [unfolded e]] w' e show ?thesis
    by (auto simp: fmt_Println_def)
qed

lemma calls_GoListenAndServe:
  "calls (snd (GoListenAndServe env k sessionID w)) =
     calls w @
     Call_ResolveTCPAddr (CHR '':'' # Itoa (p_port k)) #
     (case answer_resolve env (calls w) (CHR '':'' # Itoa (p_port k)) of
        Inl e \<Rightarrow> []
      | Inr laddr \<Rightarrow> [Call_ListenTCP laddr])"
  by (simp add: GoListenAndServe_def net_ResolveTCPAddr_def net_ListenTCP_def
        logger_Print_def called_def JoinHostPort_def Let_def split: sum.splits)

lemma GoListenAndServe_effects:
  "logged (snd (GoListenAndServe env k sessionID w)) =
     logged w @
     (case fst (fst (GoListenAndServe env k sessionID w)) of
        None \<Rightarrow> []
      | Some e \<Rightarrow> [(p_logger k, sessionID, LogError e)])"
  "stdout (snd (GoListenAndServe env k sessionID w)) = stdout w"
  by (simp_all add: GoListenAndServe_def net_ResolveTCPAddr_def net_ListenTCP_def
        logger_Print_def called_def Let_def split: sum.splits)

lemma effects_newPassiveSocket:
  "logged (snd (newPassiveSocket env hostname port lg sessionID tlsConfing w)) =
     logged w @
     (case snd (fst (fst (newPassiveSocket env hostname port lg sessionID tlsConfing w))) of
        None \<Rightarrow> []
      | Some e \<Rightarrow> [(lg, sessionID, LogError e)])"
  "stdout (snd (newPassiveSocket env hostname port lg sessionID tlsConfing w)) =
     stdout w @
     (case fst (fst (fst (newPassiveSocket env hostname port lg sessionID tlsConfing w))) of
        None \<Rightarrow> []
      | Some k \<Rightarrow> [''open '' @ Itoa (p_port k)])"
proof -
  let ?k = "\<lparr>p_conn = None, p_port = port, p_host = hostname, p_ingress = MakeChan,
             p_egress = MakeChan, p_logger = lg, p_wg = 0, p_err = None, p_tlsConfig = None\<rparr>"
  obtain eo k' t w1 where g: "GoListenAndServe env ?k sessionID w = ((eo, k', t), w1)"
    by (metis prod_cases3 surj_pair)
  from GoListenAndServe_effects [of env ?k sessionID w] g
  have e: "logged w1 = logged w @ (case eo of None \<Rightarrow> [] | Some e \<Rightarrow> [(lg, sessionID, LogError e)])"
    "stdout w1 = stdout w"
    by (simp_all split: option.splits)
  from g e show
    "logged (snd (newPassiveSocket env hostname port lg sessionID tlsConfing w)) =
     logged w @
     (case snd (fst (fst (newPassiveSocket env hostname port lg sessionID tlsConfing w))) of
        None \<Rightarrow> []
      | Some e \<Rightarrow> [(lg, sessionID, LogError e)])"
    by (cases eo) (simp_all add: newPassiveSocket_def fmt_Println_def)
  from g e show
    "stdout (snd (newPassiveSocket env hostname port lg sessionID tlsConfing w)) =
     stdout w @
     (case fst (fst (fst (newPassiveSocket env hostname port lg sessionID tlsConfing w))) of
        None \<Rightarrow> []
      | Some k \<Rightarrow> [''open '' @ Itoa (p_port k)])"
    by (cases eo) (simp_all add: newPassiveSocket_def fmt_Println_def)
qed

lemma effects_newActiveSocket:
  "logged (snd (newActiveSocket env remote port lg sessionID w)) =
     logged w @
     (lg, sessionID,
      LogString (''Opening active data connection to '' @ JoinHostPort remote (Itoa port))) #
     (case snd (fst (newActiveSocket env remote port lg sessionID w)) of
        None \<Rightarrow> []
      | Some e \<Rightarrow> [(lg, sessionID, LogError e)])"
  "stdout (snd (newActiveSocket env remote port lg sessionID w)) =
     stdout w @
     (case fst (fst (newActiveSocket env remote port lg sessionID w)) of
        None \<Rightarrow> []
      | Some a \<Rightarrow> [''open '' @ Itoa (a_port a)])"
  by (simp_all add: newActiveSocket_def net_ResolveTCPAddr_def net_DialTimeout_def
        logger_Print_def fmt_Println_def called_def Let_def split: sum.splits)

lemma logged_active_Close: "logged (snd (active_Close env a v)) = logged v"
  by (simp add: active_Close_def conn_Close_def fmt_Println_def called_def Let_def
        split: option.splits)

lemma stdout_active_Close:
  "stdout (snd (active_Close env a v)) = stdout v @ [''close '' @ Itoa (a_port a)]"
  by (simp add: active_Close_def conn_Close_def fmt_Println_def called_def Let_def
        split: option.splits)

lemma logged_passive_Close: "logged (snd (passive_Close env k v)) = logged v"
  by (simp add: passive_Close_def conn_Close_def fmt_Println_def called_def
        split: option.splits)

lemma stdout_passive_Close:
  "stdout (snd (passive_Close env k v)) =
     stdout v @ (case p_conn k of None \<Rightarrow> [] | Some c \<Rightarrow> [''close '' @ Itoa (p_port k)])"
  by (simp add: passive_Close_def conn_Close_def fmt_Println_def called_def
        split: option.splits)

section \<open>The invariant of the passive system\<close>

lemma task_inv_new:
  assumes "newPassiveSocket env hostname port lg sessionID tlsConfing w =
             (((Some socket, None), Some task), w')"
  shows "task_inv \<lparr>sys_socket = socket, sys_task = task, sys_world = w'\<rparr>"
  using newPassiveSocket_success [OF assms]
  by (auto simp: task_inv_def unresolved_def)

lemma caller_steps_keep_socket:
  assumes "step env s s'"
  shows "(\<exists>t. task_step env s = Some t \<and> s' = t) \<or>
         (sys_socket s' = sys_socket s \<and> sys_task s' = sys_task s \<and> \<not> crashed s)"
  using assms by (induction rule: step.induct) auto

lemma task_inv_task_step:
  assumes "task_inv s" and "task_step env s = Some s'"
  shows "task_inv s'"
proof (cases "sys_task s")
  case (T_SetDeadline l)
  with assms show ?thesis
    by (cases l) (auto simp: task_inv_def task_step_def unresolved_def)
next
  case (T_Accept l)
  obtain r w' where "listener_Accept env l (sys_world s) = (r, w')"
    by (cases "listener_Accept env l (sys_world s)")
  with T_Accept assms show ?thesis
    by (auto simp: task_inv_def task_step_def unresolved_def)
next
  case (T_Accepted r)
  with assms show ?thesis
    by (cases r) (auto simp: task_inv_def task_step_def unresolved_def)
next
  case (T_StoreConn c)
  with assms show ?thesis
    by (auto simp: task_inv_def task_step_def unresolved_def)
next
  case T_Return
  with assms show ?thesis
    by (auto simp: task_inv_def task_step_def split: if_splits)
next
  case T_Exited
  with assms show ?thesis by (simp add: task_step_def)
next
  case (T_Panicked m)
  with assms show ?thesis by (simp add: task_step_def)
qed

lemma task_inv_step:
  assumes "task_inv s" and "step env s s'"
  shows "task_inv s'"
proof -
  from caller_steps_keep_socket [OF assms(2)] show ?thesis
  proof
    assume "\<exists>t. task_step env s = Some t \<and> s' = t"
    with assms(1) show ?thesis by (auto intro: task_inv_task_step)
  next
    assume "sys_socket s' = sys_socket s \<and> sys_task s' = sys_task s \<and> \<not> crashed s"
    then have "sys_socket s' = sys_socket s" and "sys_task s' = sys_task s" by simp_all
    with assms(1) show ?thesis by (simp only: task_inv_def)
  qed
qed

lemma reachable_task_inv: "reachable env s \<Longrightarrow> task_inv s"
  by (induction rule: reachable.induct) (auto intro: task_inv_new task_inv_step)

lemma reachable_steps: "(step env)\<^sup>*\<^sup>* s s' \<Longrightarrow> reachable env s \<Longrightarrow> reachable env s'"
  by (induction rule: rtranclp_induct) (auto intro: reach_step)

lemma run_task_steps: "(step env)\<^sup>*\<^sup>* s (run_task env n s)"
proof (induction n arbitrary: s)
  case 0
  show ?case by simp
next
  case (Suc n)
  show ?case
  proof (cases "task_step env s")
    case None
    then show ?thesis by simp
  next
    case (Some t)
    then have "step env s t" by (rule step_task)
    with Suc [of t] Some show ?thesis
      by (simp add: converse_rtranclp_into_rtranclp)
  qed
qed

lemma reachable_run_task: "reachable env s \<Longrightarrow> reachable env (run_task env n s)"
  using run_task_steps reachable_steps by blast

lemma gate_view_task_step:
  assumes "task_inv s" and "task_step env s = Some s'"
  shows "gate_view (sys_socket s') = gate_view (sys_socket s) \<or>
         gate_view (sys_socket s) = Some Pending \<and>
           ((\<exists>c. gate_view (sys_socket s') = Some (Ready c)) \<or>
            (\<exists>e. gate_view (sys_socket s') = Some (Failed e)))"
proof (cases "sys_task s")
  case (T_SetDeadline l)
  with assms show ?thesis
    by (cases l) (auto simp: task_inv_def task_step_def unresolved_def gate_view_def)
next
  case (T_Accept l)
  obtain r w' where "listener_Accept env l (sys_world s) = (r, w')"
    by (cases "listener_Accept env l (sys_world s)")
  with T_Accept assms show ?thesis
    by (auto simp: task_inv_def task_step_def unresolved_def gate_view_def)
next
  case (T_Accepted r)
  with assms show ?thesis
    by (cases r) (auto simp: task_inv_def task_step_def unresolved_def gate_view_def)
next
  case (T_StoreConn c)
  with assms show ?thesis
    by (auto simp: task_inv_def task_step_def unresolved_def gate_view_def)
next
  case T_Return
  with assms show ?thesis
    by (auto simp: task_inv_def task_step_def gate_view_def split: if_splits option.splits)
next
  case T_Exited
  with assms show ?thesis by (simp add: task_step_def)
next
  case (T_Panicked m)
  with assms show ?thesis by (simp add: task_step_def)
qed

lemma gate_view_defined: "task_inv s \<Longrightarrow> gate_view (sys_socket s) \<noteq> None"
  by (cases "sys_task s")
     (auto simp: task_inv_def unresolved_def gate_view_def split: listener.splits option.splits)

lemma not_both: "task_inv s \<Longrightarrow> p_conn (sys_socket s) = None \<or> p_err (sys_socket s) = None"
  by (cases "sys_task s")
     (auto simp: task_inv_def unresolved_def split: listener.splits)

lemma failed_step_stutter:
  assumes inv: "task_inv s" and f: "gate_view (sys_socket s) = Some (Failed e)"
    and st: "step env s s'"
  shows "s' = s"
proof -
  from f have k: "p_conn (sys_socket s) = None" "p_wg (sys_socket s) = 0"
    "p_err (sys_socket s) = Some e"
    by (auto simp: gate_view_def split: option.splits if_splits)
  with inv have t: "sys_task s = T_Exited"
    by (cases "sys_task s") (auto simp: task_inv_def unresolved_def split: listener.splits)
  from st show ?thesis
  proof (cases rule: step.cases)
    case step_task
    with t show ?thesis by (simp add: task_step_def)
  next
    case (step_Read p r w')
    with k show ?thesis by (simp add: passive_Read_def waitForOpenSocket_def)
  next
    case (step_Write p r w')
    with k show ?thesis by (simp add: passive_Write_def waitForOpenSocket_def)
  next
    case (step_Close r w')
    with k show ?thesis by (simp add: passive_Close_def)
  qed
qed

lemma failed_steps_stutter:
  assumes "(step env)\<^sup>*\<^sup>* s s'" and "task_inv s" and "gate_view (sys_socket s) = Some (Failed e)"
  shows "s' = s"
  using assms
  by (induction rule: rtranclp_induct) (auto dest: failed_step_stutter)

lemma pending_before_accept_returns:
  assumes "task_inv s" and "\<not> accept_returned (sys_task s)"
  shows "gate_view (sys_socket s) = Some Pending"
  using assms
  by (cases "sys_task s")
     (auto simp: task_inv_def unresolved_def gate_view_def split: listener.splits)

lemma step_keeps_port:
  assumes "step env s s'"
  shows "p_port (sys_socket s') = p_port (sys_socket s)"
  using assms
proof (cases rule: step.cases)
  case step_task
  then show ?thesis
    by (cases "sys_task s")
       (auto simp: task_step_def split: listener.splits prod.splits sum.splits if_splits)
qed auto

lemma steps_keep_port:
  "(step env)\<^sup>*\<^sup>* s s' \<Longrightarrow> p_port (sys_socket s') = p_port (sys_socket s)"
  by (induction rule: rtranclp_induct) (auto dest: step_keeps_port)

section \<open>Evaluation in the two environments\<close>

lemma digits_of_small: "n < 10 \<Longrightarrow> digits_of n = [digit_char n]"
  by (subst digits_of.simps) simp

lemma digits_of_large: "10 \<le> n \<Longrightarrow> digits_of n = digits_of (n div 10) @ [digit_char (n mod 10)]"
  by (subst digits_of.simps) simp

lemma digit_char_eval:
  "digit_char 0 = CHR ''0''" "digit_char 1 = CHR ''1''" "digit_char (Suc 0) = CHR ''1''"
  "digit_char 2 = CHR ''2''" "digit_char 3 = CHR ''3''" "digit_char 4 = CHR ''4''"
  "digit_char 5 = CHR ''5''" "digit_char 6 = CHR ''6''" "digit_char 7 = CHR ''7''"
  "digit_char 8 = CHR ''8''" "digit_char 9 = CHR ''9''"
  by (simp_all add: digit_char_def char_of_def bit_Suc_0_iff)

lemmas eval_Itoa = Itoa_def digits_of_small digits_of_large digit_char_eval

lemmas eval_Atoi = Atoi_def is_digit_def digits_val_def

lemmas eval_net = net_ResolveTCPAddr_def net_ListenTCP_def net_DialTimeout_def called_def
  logger_Print_def fmt_Println_def JoinHostPort_def TCPAddr_String_def conn_Read_def
  conn_Write_def conn_Close_def Second_def Let_def

lemma newPassiveSocket_friendly:
  "newPassiveSocket friendly_env ''127.0.0.1'' 0 (Logger 1) ''s1'' tlsConfing world0 =
     (((Some (sys_socket listening_system), None), Some (sys_task listening_system)),
      sys_world listening_system)"
  by (simp add: newPassiveSocket_def GoListenAndServe_def friendly_env_def world0_def
        listening_system_def eval_net eval_Itoa eval_Atoi)

lemma newPassiveSocket_silent:
  "newPassiveSocket silent_env ''127.0.0.1'' 0 (Logger 1) ''s1'' tlsConfing world0 =
     (((Some (sys_socket listening_system), None), Some (sys_task listening_system)),
      sys_world listening_system)"
  by (simp add: newPassiveSocket_def GoListenAndServe_def silent_env_def friendly_env_def world0_def
        listening_system_def eval_net eval_Itoa eval_Atoi)

lemma reachable_listening_friendly: "reachable friendly_env listening_system"
  using reach_new [OF newPassiveSocket_friendly] by (simp add: listening_system_def)

lemma reachable_listening_silent: "reachable silent_env listening_system"
  using reach_new [OF newPassiveSocket_silent] by (simp add: listening_system_def)

lemmas eval_task = task_step_def called_def Second_def

lemma run_friendly_3: "run_task friendly_env 3 listening_system =
   listening_system\<lparr>sys_task := T_StoreConn (TCPConn 7),
     sys_world := \<lparr>calls = [Call_ResolveTCPAddr '':0'',
                  Call_ListenTCP \<lparr>addr_IP = [], addr_Port = 0, addr_Zone = []\<rparr>,
                  Call_SetDeadline \<lparr>addr_IP = ''::'', addr_Port = 40000, addr_Zone = []\<rparr> 15000000000,
                  Call_Accept \<lparr>addr_IP = ''::'', addr_Port = 40000, addr_Zone = []\<rparr>],
         logged = [], stdout = [''open 40000'']\<rparr>\<rparr>"
  by (simp add: eval_nat_numeral eval_task listening_system_def friendly_env_def)

lemma run_friendly_4: "run_task friendly_env 4 listening_system =
   listening_system\<lparr>sys_socket := (sys_socket listening_system)\<lparr>p_conn := Some (TCPConn 7)\<rparr>,
     sys_task := T_Return,
     sys_world := \<lparr>calls = [Call_ResolveTCPAddr '':0'',
                  Call_ListenTCP \<lparr>addr_IP = [], addr_Port = 0, addr_Zone = []\<rparr>,
                  Call_SetDeadline \<lparr>addr_IP = ''::'', addr_Port = 40000, addr_Zone = []\<rparr> 15000000000,
                  Call_Accept \<lparr>addr_IP = ''::'', addr_Port = 40000, addr_Zone = []\<rparr>],
         logged = [], stdout = [''open 40000'']\<rparr>\<rparr>"
  by (simp add: eval_nat_numeral eval_task listening_system_def friendly_env_def)

lemma run_friendly_5: "run_task friendly_env 5 listening_system =
   listening_system\<lparr>sys_socket := (sys_socket listening_system)\<lparr>p_conn := Some (TCPConn 7), p_wg := 0\<rparr>,
     sys_task := T_Exited,
     sys_world := \<lparr>calls = [Call_ResolveTCPAddr '':0'',
                  Call_ListenTCP \<lparr>addr_IP = [], addr_Port = 0, addr_Zone = []\<rparr>,
                  Call_SetDeadline \<lparr>addr_IP = ''::'', addr_Port = 40000, addr_Zone = []\<rparr> 15000000000,
                  Call_Accept \<lparr>addr_IP = ''::'', addr_Port = 40000, addr_Zone = []\<rparr>],
         logged = [], stdout = [''open 40000'']\<rparr>\<rparr>"
  by (simp add: eval_nat_numeral eval_task listening_system_def friendly_env_def)

lemma run_silent_4: "run_task silent_env 4 listening_system =
   listening_system\<lparr>sys_socket := (sys_socket listening_system)\<lparr>p_wg := 0, p_err := Some (GoError ''i/o timeout'')\<rparr>,
     sys_task := T_Exited,
     sys_world := \<lparr>calls = [Call_ResolveTCPAddr '':0'',
                  Call_ListenTCP \<lparr>addr_IP = [], addr_Port = 0, addr_Zone = []\<rparr>,
                  Call_SetDeadline \<lparr>addr_IP = ''::'', addr_Port = 40000, addr_Zone = []\<rparr> 15000000000,
                  Call_Accept \<lparr>addr_IP = ''::'', addr_Port = 40000, addr_Zone = []\<rparr>],
         logged = [], stdout = [''open 40000'']\<rparr>\<rparr>"
  by (simp add: eval_nat_numeral eval_task listening_system_def silent_env_def friendly_env_def)

lemma step_friendly_3_4:
  "step friendly_env (run_task friendly_env 3 listening_system) (run_task friendly_env 4 listening_system)"
proof -
  have "task_step friendly_env (run_task friendly_env 3 listening_system) =
          Some (run_task friendly_env 4 listening_system)"
    unfolding run_friendly_3 run_friendly_4 by (simp add: task_step_def listening_system_def)
  then show ?thesis by (rule step_task)
qed

lemma newActiveSocket_friendly:
  "newActiveSocket friendly_env ''10.0.0.9'' 21 (Logger 1) ''s1'' world0 =
     ((Some \<lparr>a_conn = Some (TCPConn 3), a_host = ''10.0.0.9'', a_port = 21,
             a_logger = Logger 1\<rparr>, None),
      \<lparr>calls = [Call_ResolveTCPAddr ''10.0.0.9:21'',
                Call_DialTimeout ''10.0.0.9:21'' 15000000000],
       logged = [(Logger 1, ''s1'',
                  LogString ''Opening active data connection to 10.0.0.9:21'')],
       stdout = [''open 21'']\<rparr>)"
  by (simp add: newActiveSocket_def friendly_env_def world0_def eval_net eval_Itoa)

lemma newActiveSocket_refused:
  "newActiveSocket (friendly_env\<lparr>answer_dial := \<lambda>h a t. Inl (GoError ''connection refused'')\<rparr>)
       ''10.0.0.9'' 21 (Logger 1) ''s1'' world0 =
     ((None, Some (GoError ''connection refused'')),
      \<lparr>calls = [Call_ResolveTCPAddr ''10.0.0.9:21'',
                Call_DialTimeout ''10.0.0.9:21'' 15000000000],
       logged = [(Logger 1, ''s1'',
                  LogString ''Opening active data connection to 10.0.0.9:21''),
                 (Logger 1, ''s1'', LogError (GoError ''connection refused''))],
       stdout = []\<rparr>)"
  by (simp add: newActiveSocket_def friendly_env_def world0_def eval_net eval_Itoa)

lemma newPassiveSocket_2121:
  "newPassiveSocket friendly_env ''127.0.0.1'' 2121 (Logger 1) ''s1'' None world0 =
     (((Some \<lparr>p_conn = None, p_port = 2121, p_host = ''127.0.0.1'', p_ingress = MakeChan,
              p_egress = MakeChan, p_logger = Logger 1, p_wg = 1, p_err = None,
              p_tlsConfig = None\<rparr>, None),
       Some (T_SetDeadline (TCPListener \<lparr>addr_IP = ''::'', addr_Port = 2121, addr_Zone = []\<rparr>))),
      \<lparr>calls = [Call_ResolveTCPAddr '':2121'',
                Call_ListenTCP \<lparr>addr_IP = [], addr_Port = 2121, addr_Zone = []\<rparr>],
       logged = [], stdout = [''open 2121'']\<rparr>)"
  by (simp add: newPassiveSocket_def GoListenAndServe_def friendly_env_def world0_def
        eval_net eval_Itoa eval_Atoi)

section \<open>The claims\<close>

text \<open>
  Claim C1, evaluated where it fails. \<^verbatim>\<open>newPassiveSocket\<close> is called with the TLS
  configuration \<open>TLSConfig 1\<close>; the socket it returns has \<^verbatim>\<open>tlsConfig = nil\<close>, its
  goroutine holds the plain \<^verbatim>\<open>*net.TCPListener\<close>, and once the peer has connected the gate
  is Ready with the raw connection \<open>TCPConn 7\<close>, not with
  \<open>TLSServerConn (TCPConn 7) (TLSConfig 1)\<close>: \<^verbatim>\<open>Read\<close> and \<^verbatim>\<open>Write\<close> operate on the raw stream.
\<close>

theorem tls_config_is_dropped:
  "fst (newPassiveSocket friendly_env ''127.0.0.1'' 0 (Logger 1) ''s1'' (Some (TLSConfig 1)) world0) =
     ((Some (sys_socket listening_system), None), Some (sys_task listening_system)) \<and>
   snd (newPassiveSocket friendly_env ''127.0.0.1'' 0 (Logger 1) ''s1'' (Some (TLSConfig 1)) world0) =
     sys_world listening_system \<and>
   p_tlsConfig (sys_socket listening_system) = None \<and>
   sys_task listening_system =
     T_SetDeadline (TCPListener \<lparr>addr_IP = ''::'', addr_Port = 40000, addr_Zone = []\<rparr>) \<and>
   gate_view (sys_socket (run_task friendly_env 5 listening_system)) = Some (Ready (TCPConn 7))"
proof -
  have "gate_view (sys_socket (run_task friendly_env 5 listening_system)) =
          Some (Ready (TCPConn 7))"
    unfolding run_friendly_5 by (simp add: gate_view_def listening_system_def)
  then show ?thesis
    unfolding newPassiveSocket_friendly by (simp add: listening_system_def)
qed

text \<open>
  Claim C2. Once the accept phase has failed with an error \<open>e\<close> (the gate is Failed \<open>e\<close>),
  then after any further steps of the system \<^verbatim>\<open>Read\<close> and \<^verbatim>\<open>Write\<close> return zero bytes
  and the same \<open>e\<close>, they leave the world as it is (no call reaches a connection), no call
  at all has been made to the network since the failure, and the goroutine has exited:
  nothing is tried again.
\<close>

theorem failed_accept_is_terminal:
  assumes "reachable env s"
    and "gate_view (sys_socket s) = Some (Failed e)"
    and "(step env)\<^sup>*\<^sup>* s s'"
  shows "passive_Read env (sys_socket s') p (sys_world s') =
           (Returned (p, 0, Some e), sys_world s') \<and>
         passive_Write env (sys_socket s') p (sys_world s') =
           (Returned (0, Some e), sys_world s') \<and>
         calls (sys_world s') = calls (sys_world s) \<and>
         sys_task s' = T_Exited"
proof -
  have inv: "task_inv s" using assms(1) by (rule reachable_task_inv)
  have same: "s' = s" using assms(3) inv assms(2) by (rule failed_steps_stutter)
  from assms(2) have k: "p_conn (sys_socket s) = None" "p_wg (sys_socket s) = 0"
    "p_err (sys_socket s) = Some e"
    by (auto simp: gate_view_def split: option.splits if_splits)
  with inv have t: "sys_task s = T_Exited"
    by (cases "sys_task s") (auto simp: task_inv_def unresolved_def split: listener.splits)
  from k t same show ?thesis
    by (simp add: passive_Read_def passive_Write_def waitForOpenSocket_def)
qed

text \<open>
  Claim C2, witness: in \<open>silent_env\<close> the accept fails with \<^verbatim>\<open>i/o timeout\<close>; after the four
  statements of the goroutine the gate is Failed and \<^verbatim>\<open>Read\<close> and \<^verbatim>\<open>Write\<close> return that
  error.
\<close>

theorem failed_accept_is_terminal_witness:
  "reachable silent_env (run_task silent_env 4 listening_system) \<and>
   gate_view (sys_socket (run_task silent_env 4 listening_system)) =
     Some (Failed (GoError ''i/o timeout'')) \<and>
   passive_Read silent_env (sys_socket (run_task silent_env 4 listening_system)) [1, 2, 3]
       (sys_world (run_task silent_env 4 listening_system)) =
     (Returned ([1, 2, 3], 0, Some (GoError ''i/o timeout'')),
      sys_world (run_task silent_env 4 listening_system)) \<and>
   passive_Write silent_env (sys_socket (run_task silent_env 4 listening_system)) [1, 2, 3]
       (sys_world (run_task silent_env 4 listening_system)) =
     (Returned (0, Some (GoError ''i/o timeout'')),
      sys_world (run_task silent_env 4 listening_system))"
proof -
  have r: "reachable silent_env (run_task silent_env 4 listening_system)"
    by (rule reachable_run_task [OF reachable_listening_silent])
  have g: "gate_view (sys_socket (run_task silent_env 4 listening_system)) =
             Some (Failed (GoError ''i/o timeout''))"
    unfolding run_silent_4 by (simp add: gate_view_def listening_system_def)
  have s: "(step silent_env)\<^sup>*\<^sup>* (run_task silent_env 4 listening_system)
             (run_task silent_env 4 listening_system)"
    by simp
  show ?thesis
    using r g failed_accept_is_terminal [OF r g s, of "[1, 2, 3]"] by simp
qed

text \<open>
  Claim C3. Let \<^verbatim>\<open>newPassiveSocket\<close> succeed for the requested port 0, in an environment
  whose listeners are bound to ports between 1 and 65535 (what an operating system does).
  Then \<^verbatim>\<open>Port()\<close> is not 0, it is the port of the address that \<^verbatim>\<open>net.ListenTCP\<close> bound
  the listener to, and after any number of steps of the system \<^verbatim>\<open>Port()\<close> still returns
  the same value.
\<close>

theorem port_is_the_bound_port:
  assumes new: "newPassiveSocket env hostname 0 lg sessionID tlsConfing w =
                  (((Some socket, None), Some task), w')"
    and os: "\<forall>h a b. answer_listen env h a = Inr b \<longrightarrow> 0 < addr_Port b \<and> addr_Port b \<le> 65535"
  shows "passive_Port socket \<noteq> 0 \<and>
         (\<exists>laddr b.
            answer_listen env (calls w @ [Call_ResolveTCPAddr (JoinHostPort [] (Itoa 0))]) laddr =
              Inr b \<and>
            task = T_SetDeadline (TCPListener b) \<and> passive_Port socket = addr_Port b) \<and>
         (\<forall>s'. (step env)\<^sup>*\<^sup>* \<lparr>sys_socket = socket, sys_task = task, sys_world = w'\<rparr> s' \<longrightarrow>
               passive_Port (sys_socket s') = passive_Port socket)"
proof -
  from newPassiveSocket_success [OF new] obtain laddr b port' where
    l: "answer_listen env (calls w @ [Call_ResolveTCPAddr (JoinHostPort [] (Itoa 0))]) laddr = Inr b"
    and a: "Atoi (Itoa (addr_Port b)) = Inr port'"
    and k: "p_port socket = port'"
    and t: "task = T_SetDeadline (TCPListener b)"
    by auto
  from os l have range: "0 < addr_Port b" "addr_Port b \<le> 65535" by blast+
  then have "Atoi (Itoa (addr_Port b)) = Inr (addr_Port b)"
    by (intro Atoi_Itoa) auto
  with a k have port: "p_port socket = addr_Port b" by simp
  have "passive_Port (sys_socket s') = passive_Port socket"
    if "(step env)\<^sup>*\<^sup>* \<lparr>sys_socket = socket, sys_task = task, sys_world = w'\<rparr> s'" for s'
    using steps_keep_port [OF that] by (simp add: passive_Port_def)
  with port range t l show ?thesis by (auto simp: passive_Port_def)
qed

text \<open>
  Claim C3, witness: in \<open>friendly_env\<close> the listener requested on port 0 is bound to port
  40000, which \<^verbatim>\<open>Port()\<close> returns at once and after the goroutine has finished.
\<close>

theorem port_is_the_bound_port_witness:
  "newPassiveSocket friendly_env ''127.0.0.1'' 0 (Logger 1) ''s1'' None world0 =
     (((Some (sys_socket listening_system), None), Some (sys_task listening_system)),
      sys_world listening_system) \<and>
   passive_Port (sys_socket listening_system) = 40000 \<and>
   (step friendly_env)\<^sup>*\<^sup>* listening_system (run_task friendly_env 5 listening_system) \<and>
   passive_Port (sys_socket (run_task friendly_env 5 listening_system)) = 40000"
proof -
  have os: "\<forall>h a b. answer_listen friendly_env h a = Inr b \<longrightarrow>
              0 < addr_Port b \<and> addr_Port b \<le> 65535"
    by (auto simp: friendly_env_def split: if_splits)
  have sys: "\<lparr>sys_socket = sys_socket listening_system, sys_task = sys_task listening_system,
              sys_world = sys_world listening_system\<rparr> = listening_system"
    by (simp add: listening_system_def)
  have p: "passive_Port (sys_socket listening_system) = 40000"
    by (simp add: passive_Port_def listening_system_def)
  show ?thesis
    using port_is_the_bound_port [OF newPassiveSocket_friendly [of None] os]
      newPassiveSocket_friendly [of None] run_task_steps [of friendly_env listening_system 5] p
    unfolding sys by simp
qed

text \<open>
  Claim C4. On a passive socket whose \<^verbatim>\<open>conn\<close> is \<^verbatim>\<open>nil\<close> (no peer was accepted),
  \<^verbatim>\<open>Close()\<close> returns \<^verbatim>\<open>nil\<close> and changes nothing, and so do \<open>n\<close> calls in a row.
\<close>

theorem close_without_peer:
  assumes "p_conn socket = None"
  shows "passive_Close env socket w = (None, w) \<and>
         close_times env socket n w = (replicate n None, w)"
proof -
  have one: "passive_Close env socket w = (None, w)"
    using assms by (simp add: passive_Close_def)
  have "close_times env socket n w = (replicate n None, w)"
    by (induction n) (simp_all add: one)
  with one show ?thesis by simp
qed

text \<open>
  Claim C4, witness: the socket that is still listening, closed once and three times.
\<close>

theorem close_without_peer_witness:
  "p_conn (sys_socket listening_system) = None \<and>
   passive_Close silent_env (sys_socket listening_system) (sys_world listening_system) =
     (None, sys_world listening_system) \<and>
   close_times silent_env (sys_socket listening_system) 3 (sys_world listening_system) =
     ([None, None, None], sys_world listening_system)"
proof -
  have c: "p_conn (sys_socket listening_system) = None"
    by (simp add: listening_system_def)
  show ?thesis
    using c close_without_peer [OF c, of silent_env "sys_world listening_system" 3]
    by (simp add: eval_nat_numeral)
qed

text \<open>
  Claim C5. \<^verbatim>\<open>newActiveSocket\<close> returns either a socket or an error, never both and never
  neither. If the resolution fails, its error is returned, no socket, and no dial is
  made; if the dial (with a timeout of 15 seconds, in nanoseconds) fails, its error is
  returned and no socket. If a socket is returned, its \<^verbatim>\<open>conn\<close> is the dialed connection,
  and \<^verbatim>\<open>Read\<close>, \<^verbatim>\<open>Write\<close> and \<^verbatim>\<open>Close\<close> return what that connection answers: they
  are never blocked.
\<close>

theorem active_construction_is_atomic:
  assumes new: "newActiveSocket env remote port lg sessionID w = ((so, eo), w')"
  shows "(so = None) = (eo \<noteq> None) \<and>
         (\<forall>e. answer_resolve env (calls w) (JoinHostPort remote (Itoa port)) = Inl e \<longrightarrow>
            so = None \<and> eo = Some e \<and>
            calls w' = calls w @ [Call_ResolveTCPAddr (JoinHostPort remote (Itoa port))]) \<and>
         (\<forall>raddr e.
            answer_resolve env (calls w) (JoinHostPort remote (Itoa port)) = Inr raddr \<and>
            answer_dial env (calls w @ [Call_ResolveTCPAddr (JoinHostPort remote (Itoa port))])
              (TCPAddr_String raddr) (15 * 1000000000) = Inl e \<longrightarrow>
            so = None \<and> eo = Some e) \<and>
         (\<forall>socket. so = Some socket \<longrightarrow>
            (\<exists>raddr c.
               a_conn socket = Some c \<and>
               calls w' = calls w @ [Call_ResolveTCPAddr (JoinHostPort remote (Itoa port)),
                                     Call_DialTimeout (TCPAddr_String raddr) (15 * 1000000000)] \<and>
               active_Read env socket p v =
                 (Returned (answer_read env (calls v) c p), called (Call_Read c p) v) \<and>
               active_Write env socket p v =
                 (Returned (answer_write env (calls v) c p), called (Call_Write c p) v) \<and>
               active_Close env socket v =
                 (Returned (answer_close env (calls v) c),
                  called (Call_Close c) (fmt_Println ''close'' (Itoa (a_port socket)) v))))"
proof (cases "answer_resolve env (calls w) (JoinHostPort remote (Itoa port))")
  case (Inl e)
  with new show ?thesis
    by (auto simp: newActiveSocket_def net_ResolveTCPAddr_def logger_Print_def called_def Let_def)
next
  case (Inr raddr)
  show ?thesis
  proof (cases "answer_dial env (calls w @ [Call_ResolveTCPAddr (JoinHostPort remote (Itoa port))])
                  (TCPAddr_String raddr) (15 * 1000000000)")
    case (Inl e)
    with Inr new show ?thesis
      by (auto simp: newActiveSocket_def net_ResolveTCPAddr_def net_DialTimeout_def
            logger_Print_def called_def Second_def Let_def)
  next
    case dial: (Inr n)
    with Inr new have so: "so = Some \<lparr>a_conn = Some (TCPConn n), a_host = remote, a_port = port,
                                      a_logger = lg\<rparr>"
      and eo: "eo = None"
      and w': "calls w' = calls w @ [Call_ResolveTCPAddr (JoinHostPort remote (Itoa port)),
                 Call_DialTimeout (TCPAddr_String raddr) (15 * 1000000000)]"
      by (auto simp: newActiveSocket_def net_ResolveTCPAddr_def net_DialTimeout_def
            logger_Print_def fmt_Println_def called_def Second_def Let_def)
    have ops: "active_Read env \<lparr>a_conn = Some (TCPConn n), a_host = remote, a_port = port,
                                a_logger = lg\<rparr> p v =
                 (Returned (answer_read env (calls v) (TCPConn n) p),
                  called (Call_Read (TCPConn n) p) v)"
      "active_Write env \<lparr>a_conn = Some (TCPConn n), a_host = remote, a_port = port,
                                a_logger = lg\<rparr> p v =
                 (Returned (answer_write env (calls v) (TCPConn n) p),
                  called (Call_Write (TCPConn n) p) v)"
      "active_Close env \<lparr>a_conn = Some (TCPConn n), a_host = remote, a_port = port,
                                a_logger = lg\<rparr> v =
                 (Returned (answer_close env (calls v) (TCPConn n)),
                  called (Call_Close (TCPConn n)) (fmt_Println ''close'' (Itoa port) v))"
      by (simp_all add: active_Read_def active_Write_def active_Close_def conn_Read_def
            conn_Write_def conn_Close_def fmt_Println_def Let_def)
    from so eo w' ops Inr dial show ?thesis by auto
  qed
qed

text \<open>
  Claim C5, witness: a dial that succeeds, with a read on the socket it gives, and a dial
  that is refused.
\<close>

theorem active_construction_is_atomic_witness:
  "fst (newActiveSocket friendly_env ''10.0.0.9'' 21 (Logger 1) ''s1'' world0) =
     (Some \<lparr>a_conn = Some (TCPConn 3), a_host = ''10.0.0.9'', a_port = 21,
            a_logger = Logger 1\<rparr>, None) \<and>
   active_Read friendly_env
       \<lparr>a_conn = Some (TCPConn 3), a_host = ''10.0.0.9'', a_port = 21, a_logger = Logger 1\<rparr>
       [0, 0, 0, 0] world0 =
     (Returned ([80, 73, 78, 71], 4, None),
      \<lparr>calls = [Call_Read (TCPConn 3) [0, 0, 0, 0]], logged = [], stdout = []\<rparr>) \<and>
   fst (newActiveSocket
          (friendly_env\<lparr>answer_dial := \<lambda>h a t. Inl (GoError ''connection refused'')\<rparr>)
          ''10.0.0.9'' 21 (Logger 1) ''s1'' world0) =
     (None, Some (GoError ''connection refused''))"
  using active_construction_is_atomic [OF newActiveSocket_friendly, of "[0, 0, 0, 0]" world0]
    active_construction_is_atomic [OF newActiveSocket_refused]
    newActiveSocket_friendly newActiveSocket_refused
  by (simp add: friendly_env_def world0_def called_def)

text \<open>
  Claim C6, counterexample. A passive socket is opened, a peer is accepted, the socket is
  closed: \<^verbatim>\<open>logger.Print\<close> has not been called once; \<^verbatim>\<open>open 40000\<close> and \<^verbatim>\<open>close 40000\<close>
  went to standard output.
\<close>

theorem sink_counterexample:
  "fst (newPassiveSocket friendly_env ''127.0.0.1'' 0 (Logger 1) ''s1'' None world0) =
     ((Some (sys_socket listening_system), None), Some (sys_task listening_system)) \<and>
   logged (snd (newPassiveSocket friendly_env ''127.0.0.1'' 0 (Logger 1) ''s1'' None world0)) = [] \<and>
   p_conn (sys_socket (run_task friendly_env 5 listening_system)) = Some (TCPConn 7) \<and>
   logged (sys_world (run_task friendly_env 5 listening_system)) = [] \<and>
   passive_Close friendly_env (sys_socket (run_task friendly_env 5 listening_system))
       (sys_world (run_task friendly_env 5 listening_system)) =
     (None,
      \<lparr>calls = [Call_ResolveTCPAddr '':0'',
                Call_ListenTCP \<lparr>addr_IP = [], addr_Port = 0, addr_Zone = []\<rparr>,
                Call_SetDeadline \<lparr>addr_IP = ''::'', addr_Port = 40000, addr_Zone = []\<rparr>
                  15000000000,
                Call_Accept \<lparr>addr_IP = ''::'', addr_Port = 40000, addr_Zone = []\<rparr>,
                Call_Close (TCPConn 7)],
       logged = [], stdout = [''open 40000'', ''close 40000'']\<rparr>)"
proof -
  have c: "passive_Close friendly_env (sys_socket (run_task friendly_env 5 listening_system))
       (sys_world (run_task friendly_env 5 listening_system)) =
     (None,
      \<lparr>calls = [Call_ResolveTCPAddr '':0'',
                Call_ListenTCP \<lparr>addr_IP = [], addr_Port = 0, addr_Zone = []\<rparr>,
                Call_SetDeadline \<lparr>addr_IP = ''::'', addr_Port = 40000, addr_Zone = []\<rparr>
                  15000000000,
                Call_Accept \<lparr>addr_IP = ''::'', addr_Port = 40000, addr_Zone = []\<rparr>,
                Call_Close (TCPConn 7)],
       logged = [], stdout = [''open 40000'', ''close 40000'']\<rparr>)"
    unfolding run_friendly_5
    by (simp add: passive_Close_def listening_system_def friendly_env_def eval_net eval_Itoa)
  have l: "p_conn (sys_socket (run_task friendly_env 5 listening_system)) = Some (TCPConn 7)"
    "logged (sys_world (run_task friendly_env 5 listening_system)) = []"
    unfolding run_friendly_5 by (simp_all add: listening_system_def)
  have n: "logged (sys_world listening_system) = []"
    by (simp add: listening_system_def)
  from c l n show ?thesis
    unfolding newPassiveSocket_friendly by simp
qed

text \<open>
  Claim C6, as amended. What reaches the logger: from \<^verbatim>\<open>newActiveSocket\<close> the message
  \<^verbatim>\<open>Opening active data connection to host:port\<close>, then the error if the construction
  fails; from \<^verbatim>\<open>newPassiveSocket\<close> the error if the construction fails, and nothing
  otherwise; from \<^verbatim>\<open>Close\<close> of either socket nothing. What reaches standard output:
  \<^verbatim>\<open>open port\<close> from a construction that succeeds, \<^verbatim>\<open>close port\<close> from \<^verbatim>\<open>Close\<close> of an
  active socket and from \<^verbatim>\<open>Close\<close> of a passive socket that has a connection.
\<close>

theorem sink_events:
  "logged (snd (newActiveSocket env remote port lg sessionID w)) =
     logged w @
     (lg, sessionID,
      LogString (''Opening active data connection to '' @ JoinHostPort remote (Itoa port))) #
     (case snd (fst (newActiveSocket env remote port lg sessionID w)) of
        None \<Rightarrow> []
      | Some e \<Rightarrow> [(lg, sessionID, LogError e)]) \<and>
   logged (snd (newPassiveSocket env hostname port lg sessionID tlsConfing w)) =
     logged w @
     (case snd (fst (fst (newPassiveSocket env hostname port lg sessionID tlsConfing w))) of
        None \<Rightarrow> []
      | Some e \<Rightarrow> [(lg, sessionID, LogError e)]) \<and>
   logged (snd (active_Close env a v)) = logged v \<and>
   logged (snd (passive_Close env k v)) = logged v \<and>
   stdout (snd (newActiveSocket env remote port lg sessionID w)) =
     stdout w @
     (case fst (fst (newActiveSocket env remote port lg sessionID w)) of
        None \<Rightarrow> []
      | Some a' \<Rightarrow> [''open '' @ Itoa (a_port a')]) \<and>
   stdout (snd (newPassiveSocket env hostname port lg sessionID tlsConfing w)) =
     stdout w @
     (case fst (fst (fst (newPassiveSocket env hostname port lg sessionID tlsConfing w))) of
        None \<Rightarrow> []
      | Some k' \<Rightarrow> [''open '' @ Itoa (p_port k')]) \<and>
   stdout (snd (active_Close env a v)) = stdout v @ [''close '' @ Itoa (a_port a)] \<and>
   stdout (snd (passive_Close env k v)) =
     stdout v @ (case p_conn k of None \<Rightarrow> [] | Some c \<Rightarrow> [''close '' @ Itoa (p_port k)])"
  using effects_newActiveSocket [of env remote port lg sessionID w]
    effects_newPassiveSocket [of env hostname port lg sessionID tlsConfing w]
    logged_active_Close [of env a v] logged_passive_Close [of env k v]
    stdout_active_Close [of env a v] stdout_passive_Close [of env k v]
  by (simp only: simp_thms)

text \<open>
  Claim C7, counterexample. \<^verbatim>\<open>newPassiveSocket("127.0.0.1", 2121, ...)\<close> resolves \<^verbatim>\<open>:2121\<close>
  and listens on the address with the empty IP, where the bind host joined with the port
  would be \<^verbatim>\<open>127.0.0.1:2121\<close>; the host is only what \<^verbatim>\<open>Host()\<close> returns.
\<close>

theorem bind_host_counterexample:
  "map_option passive_Host
     (fst (fst (fst (newPassiveSocket friendly_env ''127.0.0.1'' 2121 (Logger 1) ''s1'' None
                       world0)))) = Some ''127.0.0.1'' \<and>
   calls (snd (newPassiveSocket friendly_env ''127.0.0.1'' 2121 (Logger 1) ''s1'' None world0)) =
     [Call_ResolveTCPAddr '':2121'',
      Call_ListenTCP \<lparr>addr_IP = [], addr_Port = 2121, addr_Zone = []\<rparr>] \<and>
   JoinHostPort ''127.0.0.1'' (Itoa 2121) = ''127.0.0.1:2121''"
  unfolding newPassiveSocket_2121 by (simp add: passive_Host_def JoinHostPort_def eval_Itoa)

text \<open>
  Claim C7, as amended. \<^verbatim>\<open>newPassiveSocket\<close> resolves the empty host joined with the
  requested port, \<^verbatim>\<open>:port\<close>, and listens on the address that resolution gives; the calls
  it makes are the same for any two hosts; the host is recorded in the socket and
  returned by \<^verbatim>\<open>Host()\<close>.
\<close>

theorem listens_on_wildcard_address:
  "calls (snd (newPassiveSocket env hostname port lg sessionID tlsConfing w)) =
     calls w @
     Call_ResolveTCPAddr (CHR '':'' # Itoa port) #
     (case answer_resolve env (calls w) (CHR '':'' # Itoa port) of
        Inl e \<Rightarrow> []
      | Inr laddr \<Rightarrow> [Call_ListenTCP laddr]) \<and>
   calls (snd (newPassiveSocket env hostname' port lg sessionID tlsConfing w)) =
     calls (snd (newPassiveSocket env hostname port lg sessionID tlsConfing w)) \<and>
   (case fst (fst (fst (newPassiveSocket env hostname port lg sessionID tlsConfing w))) of
      None \<Rightarrow> True
    | Some k \<Rightarrow> passive_Host k = hostname)"
proof -
  have c: "calls (snd (newPassiveSocket env h port lg sessionID tlsConfing w)) =
     calls w @
     Call_ResolveTCPAddr (CHR '':'' # Itoa port) #
     (case answer_resolve env (calls w) (CHR '':'' # Itoa port) of
        Inl e \<Rightarrow> []
      | Inr laddr \<Rightarrow> [Call_ListenTCP laddr])" for h
  proof -
    let ?k = "\<lparr>p_conn = None, p_port = port, p_host = h, p_ingress = MakeChan,
               p_egress = MakeChan, p_logger = lg, p_wg = 0, p_err = None, p_tlsConfig = None\<rparr>"
    obtain eo k' t w1 where g: "GoListenAndServe env ?k sessionID w = ((eo, k', t), w1)"
      by (metis prod_cases3 surj_pair)
    with calls_GoListenAndServe [of env ?k sessionID w] show ?thesis
      by (cases eo) (simp_all add: newPassiveSocket_def fmt_Println_def)
  qed
  have h: "case fst (fst (fst (newPassiveSocket env hostname port lg sessionID tlsConfing w))) of
      None \<Rightarrow> True
    | Some k \<Rightarrow> passive_Host k = hostname"
  proof (cases "fst (fst (fst (newPassiveSocket env hostname port lg sessionID tlsConfing w)))")
    case None
    then show ?thesis by simp
  next
    case (Some k)
    then obtain eo t w' where
      "newPassiveSocket env hostname port lg sessionID tlsConfing w = (((Some k, eo), t), w')"
      by (metis prod.collapse)
    from newPassiveSocket_success [OF this] Some show ?thesis
      by (auto simp: passive_Host_def)
  qed
  from c [of hostname] c [of hostname'] h show ?thesis by simp
qed

text \<open>
  Claim C8. In every system that exists the fields \<^verbatim>\<open>conn\<close> and \<^verbatim>\<open>err\<close> are never both
  set, the three fields always form a gate state (Pending, Ready or Failed), and a step
  either leaves the gate as it is or takes it from Pending to Ready or to Failed: a gate
  that is Ready or Failed never changes again, so it changes at most once.
\<close>

theorem gate_resolves_once:
  assumes "reachable env s"
  shows "(p_conn (sys_socket s) = None \<or> p_err (sys_socket s) = None) \<and>
         gate_view (sys_socket s) \<noteq> None \<and>
         (\<forall>s'. step env s s' \<longrightarrow>
            gate_view (sys_socket s') = gate_view (sys_socket s) \<or>
            gate_view (sys_socket s) = Some Pending \<and>
              ((\<exists>c. gate_view (sys_socket s') = Some (Ready c)) \<or>
               (\<exists>e. gate_view (sys_socket s') = Some (Failed e))))"
proof -
  have inv: "task_inv s" using assms by (rule reachable_task_inv)
  have "gate_view (sys_socket s') = gate_view (sys_socket s) \<or>
        gate_view (sys_socket s) = Some Pending \<and>
          ((\<exists>c. gate_view (sys_socket s') = Some (Ready c)) \<or>
           (\<exists>e. gate_view (sys_socket s') = Some (Failed e)))"
    if "step env s s'" for s'
    using caller_steps_keep_socket [OF that] gate_view_task_step [OF inv] by auto
  with not_both [OF inv] gate_view_defined [OF inv] show ?thesis by blast
qed

text \<open>
  Claim C8, witness: the statement \<^verbatim>\<open>socket.conn = conn\<close> of the goroutine takes the gate
  from Pending to Ready, with no error stored.
\<close>

theorem gate_resolves_once_witness:
  "reachable friendly_env (run_task friendly_env 3 listening_system) \<and>
   step friendly_env (run_task friendly_env 3 listening_system)
     (run_task friendly_env 4 listening_system) \<and>
   gate_view (sys_socket (run_task friendly_env 3 listening_system)) = Some Pending \<and>
   gate_view (sys_socket (run_task friendly_env 4 listening_system)) = Some (Ready (TCPConn 7)) \<and>
   p_err (sys_socket (run_task friendly_env 4 listening_system)) = None"
proof -
  have r: "reachable friendly_env (run_task friendly_env 3 listening_system)"
    by (rule reachable_run_task [OF reachable_listening_friendly])
  have r': "reachable friendly_env (run_task friendly_env 4 listening_system)"
    by (rule reachable_run_task [OF reachable_listening_friendly])
  show ?thesis
    using r step_friendly_3_4 gate_resolves_once [OF r] gate_resolves_once [OF r']
    unfolding run_friendly_3 run_friendly_4
    by (simp add: gate_view_def listening_system_def)
qed

text \<open>
  Claim C9. In every system that exists: while the gate is Pending, \<^verbatim>\<open>Read\<close> and \<^verbatim>\<open>Write\<close>
  are blocked; once it is not Pending, they return; and as long as \<^verbatim>\<open>listener.Accept()\<close>
  has not returned in the goroutine the gate is Pending, so no call returns before a peer
  has connected or the accept has failed.
\<close>

theorem read_write_wait_for_the_gate:
  assumes "reachable env s"
  shows "(gate_view (sys_socket s) = Some Pending \<longrightarrow>
            passive_Read env (sys_socket s) p w = (Blocked, w) \<and>
            passive_Write env (sys_socket s) p w = (Blocked, w)) \<and>
         (gate_view (sys_socket s) \<noteq> Some Pending \<longrightarrow>
            (\<exists>r w'. passive_Read env (sys_socket s) p w = (Returned r, w')) \<and>
            (\<exists>r w'. passive_Write env (sys_socket s) p w = (Returned r, w'))) \<and>
         (\<not> accept_returned (sys_task s) \<longrightarrow> gate_view (sys_socket s) = Some Pending)"
proof -
  have inv: "task_inv s" using assms by (rule reachable_task_inv)
  have blocked: "passive_Read env (sys_socket s) p w = (Blocked, w) \<and>
                 passive_Write env (sys_socket s) p w = (Blocked, w)"
    if "gate_view (sys_socket s) = Some Pending"
    using that
    by (auto simp: gate_view_def passive_Read_def passive_Write_def waitForOpenSocket_def
          split: option.splits if_splits)
  have returns: "(\<exists>r w'. passive_Read env (sys_socket s) p w = (Returned r, w')) \<and>
                 (\<exists>r w'. passive_Write env (sys_socket s) p w = (Returned r, w'))"
    if np: "gate_view (sys_socket s) \<noteq> Some Pending"
  proof (cases "p_conn (sys_socket s)")
    case (Some c)
    obtain b n eo where "answer_read env (calls w) c p = (b, n, eo)"
      by (cases "answer_read env (calls w) c p") auto
    with Some show ?thesis
      by (simp add: passive_Read_def passive_Write_def waitForOpenSocket_def
            conn_Read_def conn_Write_def)
  next
    case None
    with np gate_view_defined [OF inv] obtain e where
      "p_wg (sys_socket s) = 0" and "p_err (sys_socket s) = Some e"
      by (auto simp: gate_view_def split: if_splits option.splits)
    with None show ?thesis
      by (simp add: passive_Read_def passive_Write_def waitForOpenSocket_def)
  qed
  from blocked returns pending_before_accept_returns [OF inv] show ?thesis by blast
qed

text \<open>
  Claim C9, witness: \<^verbatim>\<open>Read\<close> and \<^verbatim>\<open>Write\<close> are blocked on the socket that is still
  listening, and return once the goroutine has stored the connection.
\<close>

theorem read_write_wait_for_the_gate_witness:
  "reachable friendly_env listening_system \<and>
   gate_view (sys_socket listening_system) = Some Pending \<and>
   passive_Read friendly_env (sys_socket listening_system) [0, 0, 0, 0]
       (sys_world listening_system) = (Blocked, sys_world listening_system) \<and>
   passive_Write friendly_env (sys_socket listening_system) [80, 79, 78, 71]
       (sys_world listening_system) = (Blocked, sys_world listening_system) \<and>
   reachable friendly_env (run_task friendly_env 5 listening_system) \<and>
   gate_view (sys_socket (run_task friendly_env 5 listening_system)) = Some (Ready (TCPConn 7)) \<and>
   fst (passive_Read friendly_env (sys_socket (run_task friendly_env 5 listening_system))
          [0, 0, 0, 0] (sys_world (run_task friendly_env 5 listening_system))) =
     Returned ([80, 73, 78, 71], 4, None) \<and>
   fst (passive_Write friendly_env (sys_socket (run_task friendly_env 5 listening_system))
          [80, 79, 78, 71] (sys_world (run_task friendly_env 5 listening_system))) =
     Returned (4, None)"
proof -
  have r: "reachable friendly_env (run_task friendly_env 5 listening_system)"
    by (rule reachable_run_task [OF reachable_listening_friendly])
  have g0: "gate_view (sys_socket listening_system) = Some Pending"
    by (simp add: gate_view_def listening_system_def)
  have g5: "gate_view (sys_socket (run_task friendly_env 5 listening_system)) =
              Some (Ready (TCPConn 7))"
    unfolding run_friendly_5 by (simp add: gate_view_def listening_system_def)
  have rd: "fst (passive_Read friendly_env (sys_socket (run_task friendly_env 5 listening_system))
          [0, 0, 0, 0] (sys_world (run_task friendly_env 5 listening_system))) =
     Returned ([80, 73, 78, 71], 4, None)"
    unfolding run_friendly_5
    by (simp add: passive_Read_def waitForOpenSocket_def conn_Read_def listening_system_def
          friendly_env_def)
  have wr: "fst (passive_Write friendly_env (sys_socket (run_task friendly_env 5 listening_system))
          [80, 79, 78, 71] (sys_world (run_task friendly_env 5 listening_system))) =
     Returned (4, None)"
    unfolding run_friendly_5
    by (simp add: passive_Write_def waitForOpenSocket_def conn_Write_def listening_system_def
          friendly_env_def)
  show ?thesis
    using reachable_listening_friendly r g0 g5 rd wr
      read_write_wait_for_the_gate [OF reachable_listening_friendly,
        of "[0, 0, 0, 0]" "sys_world listening_system"]
      read_write_wait_for_the_gate [OF reachable_listening_friendly,
        of "[80, 79, 78, 71]" "sys_world listening_system"]
    by simp
qed

text \<open>
  Claim C10. If the field \<^verbatim>\<open>tlsConfig\<close> is set and \<^verbatim>\<open>GoListenAndServe\<close> succeeds, the
  goroutine holds the listener of \<^verbatim>\<open>tls.NewListener\<close>, its first statement (the type
  assertion to \<^verbatim>\<open>*net.TCPListener\<close>) panics, and however long it is run the program has
  crashed and the gate is as \<^verbatim>\<open>GoListenAndServe\<close> left it.
\<close>

theorem tls_listener_type_assertion_panics:
  assumes tls: "p_tlsConfig socket = Some cfg"
    and serve: "GoListenAndServe env socket sessionID w = ((None, socket', Some task), w')"
  shows "\<exists>b. task = T_SetDeadline (TLSListener (TCPListener b) cfg) \<and>
             task_step env \<lparr>sys_socket = socket', sys_task = task, sys_world = w'\<rparr> =
               Some \<lparr>sys_socket = socket',
                     sys_task = T_Panicked
                       ''interface conversion: net.Listener is *tls.listener, not *net.TCPListener'',
                     sys_world = w'\<rparr> \<and>
             (\<forall>n. crashed (run_task env (Suc n)
                     \<lparr>sys_socket = socket', sys_task = task, sys_world = w'\<rparr>) \<and>
                  gate_view (sys_socket (run_task env (Suc n)
                     \<lparr>sys_socket = socket', sys_task = task, sys_world = w'\<rparr>)) =
                    gate_view socket')"
proof -
  from GoListenAndServe_success [OF serve] tls obtain b where
    t: "task = T_SetDeadline (TLSListener (TCPListener b) cfg)"
    by auto
  let ?s = "\<lparr>sys_socket = socket', sys_task = task, sys_world = w'\<rparr>"
  let ?p = "\<lparr>sys_socket = socket',
             sys_task = T_Panicked
               ''interface conversion: net.Listener is *tls.listener, not *net.TCPListener'',
             sys_world = w'\<rparr>"
  have st: "task_step env ?s = Some ?p"
    by (simp add: t task_step_def)
  have stop: "task_step env ?p = None"
    by (simp add: task_step_def)
  have "run_task env n ?p = ?p" for n
    by (cases n) (simp_all add: stop)
  then have run: "run_task env (Suc n) ?s = ?p" for n
    by (simp add: st)
  have "crashed ?p" by (simp add: crashed_def)
  with t st run show ?thesis by simp
qed

text \<open>
  Claim C10, witness: a socket with \<^verbatim>\<open>tlsConfig\<close> set to \<open>TLSConfig 1\<close>, in \<open>friendly_env\<close>.
\<close>

theorem tls_listener_type_assertion_panics_witness:
  "p_tlsConfig ((sys_socket listening_system)\<lparr>p_port := 0, p_wg := 0,
       p_tlsConfig := Some (TLSConfig 1)\<rparr>) = Some (TLSConfig 1) \<and>
   fst (GoListenAndServe friendly_env
         ((sys_socket listening_system)\<lparr>p_port := 0, p_wg := 0,
            p_tlsConfig := Some (TLSConfig 1)\<rparr>) ''s1'' world0) =
     (None,
      (sys_socket listening_system)\<lparr>p_tlsConfig := Some (TLSConfig 1)\<rparr>,
      Some (T_SetDeadline (TLSListener
              (TCPListener \<lparr>addr_IP = ''::'', addr_Port = 40000, addr_Zone = []\<rparr>)
              (TLSConfig 1)))) \<and>
   sys_task (run_task friendly_env 5
      \<lparr>sys_socket = (sys_socket listening_system)\<lparr>p_tlsConfig := Some (TLSConfig 1)\<rparr>,
       sys_task = T_SetDeadline (TLSListener
              (TCPListener \<lparr>addr_IP = ''::'', addr_Port = 40000, addr_Zone = []\<rparr>)
              (TLSConfig 1)),
       sys_world = \<lparr>calls = [Call_ResolveTCPAddr '':0'',
                  Call_ListenTCP \<lparr>addr_IP = [], addr_Port = 0, addr_Zone = []\<rparr>],
         logged = [], stdout = []\<rparr>\<rparr>) =
     T_Panicked ''interface conversion: net.Listener is *tls.listener, not *net.TCPListener''"
proof -
  have tls: "p_tlsConfig ((sys_socket listening_system)\<lparr>p_port := 0, p_wg := 0,
       p_tlsConfig := Some (TLSConfig 1)\<rparr>) = Some (TLSConfig 1)"
    by simp
  have serve: "GoListenAndServe friendly_env
         ((sys_socket listening_system)\<lparr>p_port := 0, p_wg := 0,
            p_tlsConfig := Some (TLSConfig 1)\<rparr>) ''s1'' world0 =
     ((None,
      (sys_socket listening_system)\<lparr>p_tlsConfig := Some (TLSConfig 1)\<rparr>,
      Some (T_SetDeadline (TLSListener
              (TCPListener \<lparr>addr_IP = ''::'', addr_Port = 40000, addr_Zone = []\<rparr>)
              (TLSConfig 1)))),
      \<lparr>calls = [Call_ResolveTCPAddr '':0'',
                  Call_ListenTCP \<lparr>addr_IP = [], addr_Port = 0, addr_Zone = []\<rparr>],
         logged = [], stdout = []\<rparr>)"
    by (simp add: GoListenAndServe_def friendly_env_def world0_def listening_system_def
          eval_net eval_Itoa eval_Atoi)
  show ?thesis
    using tls serve tls_listener_type_assertion_panics [OF tls serve]
    by (simp add: eval_nat_numeral task_step_def)
qed

end
